theory Spec2Isabelle
  imports Complex_Main
begin

section \<open>JSON values and the decoding rules of \<^verbatim>\<open>encoding/json\<close>\<close>

text \<open>
  The client hands every payload to \<^verbatim>\<open>json.Unmarshal\<close>. A payload is modelled
  by its parsed value. A number literal without fraction and exponent is
  \<open>JInt\<close>; any other number literal is \<open>JFloat\<close> and keeps its text. An
  object keeps its members in document order, because the decoder visits them
  in that order. Strings are Go strings: lists of bytes in UTF-8.
\<close>

datatype json =
    JNull
  | JBool bool
  | JInt int
  | JFloat string
  | JString string
  | JArray "json list"
  | JObject "(string \<times> json) list"

datatype json_error = SyntaxError | UnmarshalTypeError

text \<open>
  Field lookup is by exact name or, failing that, case-insensitively. Besides
  the ASCII letters, the decoder folds two more runes onto ASCII letters: the
  Kelvin sign U+212A (bytes E2 84 AA) onto k and the long s U+017F (bytes
  C5 BF) onto s. Every tag of this package is lower-case ASCII and no two tags
  are equal up to case, so a key selects the field whose tag equals the folded
  key.
\<close>

definition lower :: "char \<Rightarrow> char" where
  "lower c = (let n = (of_char c :: nat) in
     if 65 \<le> n \<and> n \<le> 90 then char_of (n + 32) else c)"

fun foldName :: "string \<Rightarrow> string" where
  "foldName [] = []"
| "foldName (c # cs) =
     (if c = CHR 0xE2 \<and> take 2 cs = [CHR 0x84, CHR 0xAA] then CHR ''k'' # foldName (drop 2 cs)
      else if c = CHR 0xC5 \<and> take 1 cs = [CHR 0xBF] then CHR ''s'' # foldName (drop 1 cs)
      else lower c # foldName cs)"

text \<open>
  Decoding stores into a Go value that already holds something (the zero value
  at the top level), so every decoder takes the current value. JSON
  \<open>null\<close> leaves a non-pointer value as it is and is no error. Go's
  \<^verbatim>\<open>int\<close> has 64 bits on every target of the Makefile; a literal outside
  that range is a type error, as is any value of the wrong JSON kind.
\<close>

definition fits_int :: "int \<Rightarrow> bool" where
  "fits_int n \<longleftrightarrow> - (2 ^ 63) \<le> n \<and> n < 2 ^ 63"

definition decode_int :: "json \<Rightarrow> int \<Rightarrow> json_error + int" where
  "decode_int j cur =
     (case j of
        JNull \<Rightarrow> Inr cur
      | JInt n \<Rightarrow> if fits_int n then Inr n else Inl UnmarshalTypeError
      | _ \<Rightarrow> Inl UnmarshalTypeError)"

definition decode_string :: "json \<Rightarrow> string \<Rightarrow> json_error + string" where
  "decode_string j cur =
     (case j of
        JNull \<Rightarrow> Inr cur
      | JString s \<Rightarrow> Inr s
      | _ \<Rightarrow> Inl UnmarshalTypeError)"

text \<open>
  A struct is filled member by member. A member whose key selects no field is
  skipped. The decoder remembers the first type error, goes on, and returns
  that error at the end; the callers drop the value whenever an error comes
  back, so the model stops at the first error.
\<close>

fun decode_members ::
  "(string \<Rightarrow> json \<Rightarrow> 'a \<Rightarrow> json_error + 'a) \<Rightarrow> (string \<times> json) list \<Rightarrow> 'a \<Rightarrow> json_error + 'a"
where
  "decode_members field [] v = Inr v"
| "decode_members field ((k, j) # kvs) v =
     (case field (foldName k) j v of
        Inl e \<Rightarrow> Inl e
      | Inr v' \<Rightarrow> decode_members field kvs v')"

definition decode_struct ::
  "(string \<Rightarrow> json \<Rightarrow> 'a \<Rightarrow> json_error + 'a) \<Rightarrow> json \<Rightarrow> 'a \<Rightarrow> json_error + 'a"
where
  "decode_struct field j cur =
     (case j of
        JNull \<Rightarrow> Inr cur
      | JObject kvs \<Rightarrow> decode_members field kvs cur
      | _ \<Rightarrow> Inl UnmarshalTypeError)"

text \<open>
  A slice: \<open>null\<close> gives the nil slice; an array gives its elements in order,
  each decoded into a zero element. That is what the decoder does for an array
  member that occurs once in its object, and the statements below use decoded
  values only of such payloads. When a slice member occurs again in the same
  object, the decoder stores the later array into the elements the earlier one
  left, so a member that a later element lacks keeps its earlier value; the
  model decodes into zero elements there as well. It then agrees with the
  decoder on whether the decode succeeds, not on those values. The nil slice
  and the empty slice are both the empty list here.
\<close>

fun decode_elems :: "(json \<Rightarrow> 'a \<Rightarrow> json_error + 'a) \<Rightarrow> 'a \<Rightarrow> json list \<Rightarrow> json_error + 'a list" where
  "decode_elems dec zero [] = Inr []"
| "decode_elems dec zero (j # js) =
     (case dec j zero of
        Inl e \<Rightarrow> Inl e
      | Inr x \<Rightarrow> (case decode_elems dec zero js of
                    Inl e \<Rightarrow> Inl e
                  | Inr xs \<Rightarrow> Inr (x # xs)))"

definition decode_slice ::
  "(json \<Rightarrow> 'a \<Rightarrow> json_error + 'a) \<Rightarrow> 'a \<Rightarrow> json \<Rightarrow> 'a list \<Rightarrow> json_error + 'a list"
where
  "decode_slice dec zero j cur =
     (case j of
        JNull \<Rightarrow> Inr []
      | JArray js \<Rightarrow> decode_elems dec zero js
      | _ \<Rightarrow> Inl UnmarshalTypeError)"

text \<open>Storing a decoded field back into its struct.\<close>

definition store :: "json_error + 'b \<Rightarrow> ('b \<Rightarrow> 'a) \<Rightarrow> json_error + 'a" where
  "store r upd = (case r of Inl e \<Rightarrow> Inl e | Inr v \<Rightarrow> Inr (upd v))"

text \<open>
  \<^verbatim>\<open>json.Unmarshal(raw, &v)\<close> on the raw \<^verbatim>\<open>data\<close> member of a response. The
  raw message is empty when the envelope had no \<^verbatim>\<open>data\<close> member (\<open>None\<close>):
  that is a syntax error. Otherwise it holds one well-formed JSON value, since
  the envelope itself was parsed.
\<close>

definition unmarshal :: "(json \<Rightarrow> 'a \<Rightarrow> json_error + 'a) \<Rightarrow> 'a \<Rightarrow> json option \<Rightarrow> json_error + 'a" where
  "unmarshal dec zero raw =
     (case raw of
        None \<Rightarrow> Inl SyntaxError
      | Some j \<Rightarrow> dec j zero)"

section \<open>The data model of package \<^verbatim>\<open>api\<close>\<close>

record Ticket =
  TicketID :: int
  TicketPID :: int
  Number :: string
  UserID :: int
  UserEmailID :: int
  StatusID :: int
  DeptID :: int
  SLAID :: int
  TopicID :: int
  StaffID :: int
  TeamID :: int
  EmailID :: int
  LockID :: int
  Flags :: int
  Sort :: int
  Subject :: string
  Title :: string
  Body :: string
  IPAddress :: string
  Source :: string
  SourceExtra :: string
  IsOverdue :: int
  IsAnswered :: int
  DueDate :: string
  EstDueDate :: string
  Reopened :: string
  Closed :: string
  LastUpdate :: string
  Created :: string
  Updated :: string

definition zero_Ticket :: Ticket where
  "zero_Ticket = \<lparr>
     TicketID = 0,
     TicketPID = 0,
     Number = '''',
     UserID = 0,
     UserEmailID = 0,
     StatusID = 0,
     DeptID = 0,
     SLAID = 0,
     TopicID = 0,
     StaffID = 0,
     TeamID = 0,
     EmailID = 0,
     LockID = 0,
     Flags = 0,
     Sort = 0,
     Subject = '''',
     Title = '''',
     Body = '''',
     IPAddress = '''',
     Source = '''',
     SourceExtra = '''',
     IsOverdue = 0,
     IsAnswered = 0,
     DueDate = '''',
     EstDueDate = '''',
     Reopened = '''',
     Closed = '''',
     LastUpdate = '''',
     Created = '''',
     Updated = ''''\<rparr>"

text \<open>The field a (folded) key selects in \<^verbatim>\<open>Ticket\<close>, by its \<^verbatim>\<open>json\<close> tag.\<close>

definition Ticket_field :: "string \<Rightarrow> json \<Rightarrow> Ticket \<Rightarrow> json_error + Ticket" where
  "Ticket_field k j t =
    (if k = ''ticket_id'' then store (decode_int j (Ticket.TicketID t)) (\<lambda>v. t\<lparr>Ticket.TicketID := v\<rparr>)
     else if k = ''ticket_pid'' then store (decode_int j (Ticket.TicketPID t)) (\<lambda>v. t\<lparr>Ticket.TicketPID := v\<rparr>)
     else if k = ''number'' then store (decode_string j (Ticket.Number t)) (\<lambda>v. t\<lparr>Ticket.Number := v\<rparr>)
     else if k = ''user_id'' then store (decode_int j (Ticket.UserID t)) (\<lambda>v. t\<lparr>Ticket.UserID := v\<rparr>)
     else if k = ''user_email_id'' then store (decode_int j (Ticket.UserEmailID t)) (\<lambda>v. t\<lparr>Ticket.UserEmailID := v\<rparr>)
     else if k = ''status_id'' then store (decode_int j (Ticket.StatusID t)) (\<lambda>v. t\<lparr>Ticket.StatusID := v\<rparr>)
     else if k = ''dept_id'' then store (decode_int j (Ticket.DeptID t)) (\<lambda>v. t\<lparr>Ticket.DeptID := v\<rparr>)
     else if k = ''sla_id'' then store (decode_int j (Ticket.SLAID t)) (\<lambda>v. t\<lparr>Ticket.SLAID := v\<rparr>)
     else if k = ''topic_id'' then store (decode_int j (Ticket.TopicID t)) (\<lambda>v. t\<lparr>Ticket.TopicID := v\<rparr>)
     else if k = ''staff_id'' then store (decode_int j (Ticket.StaffID t)) (\<lambda>v. t\<lparr>Ticket.StaffID := v\<rparr>)
     else if k = ''team_id'' then store (decode_int j (Ticket.TeamID t)) (\<lambda>v. t\<lparr>Ticket.TeamID := v\<rparr>)
     else if k = ''email_id'' then store (decode_int j (Ticket.EmailID t)) (\<lambda>v. t\<lparr>Ticket.EmailID := v\<rparr>)
     else if k = ''lock_id'' then store (decode_int j (Ticket.LockID t)) (\<lambda>v. t\<lparr>Ticket.LockID := v\<rparr>)
     else if k = ''flags'' then store (decode_int j (Ticket.Flags t)) (\<lambda>v. t\<lparr>Ticket.Flags := v\<rparr>)
     else if k = ''sort'' then store (decode_int j (Ticket.Sort t)) (\<lambda>v. t\<lparr>Ticket.Sort := v\<rparr>)
     else if k = ''subject'' then store (decode_string j (Ticket.Subject t)) (\<lambda>v. t\<lparr>Ticket.Subject := v\<rparr>)
     else if k = ''title'' then store (decode_string j (Ticket.Title t)) (\<lambda>v. t\<lparr>Ticket.Title := v\<rparr>)
     else if k = ''body'' then store (decode_string j (Ticket.Body t)) (\<lambda>v. t\<lparr>Ticket.Body := v\<rparr>)
     else if k = ''ip_address'' then store (decode_string j (Ticket.IPAddress t)) (\<lambda>v. t\<lparr>Ticket.IPAddress := v\<rparr>)
     else if k = ''source'' then store (decode_string j (Ticket.Source t)) (\<lambda>v. t\<lparr>Ticket.Source := v\<rparr>)
     else if k = ''source_extra'' then store (decode_string j (Ticket.SourceExtra t)) (\<lambda>v. t\<lparr>Ticket.SourceExtra := v\<rparr>)
     else if k = ''isoverdue'' then store (decode_int j (Ticket.IsOverdue t)) (\<lambda>v. t\<lparr>Ticket.IsOverdue := v\<rparr>)
     else if k = ''isanswered'' then store (decode_int j (Ticket.IsAnswered t)) (\<lambda>v. t\<lparr>Ticket.IsAnswered := v\<rparr>)
     else if k = ''duedate'' then store (decode_string j (Ticket.DueDate t)) (\<lambda>v. t\<lparr>Ticket.DueDate := v\<rparr>)
     else if k = ''est_duedate'' then store (decode_string j (Ticket.EstDueDate t)) (\<lambda>v. t\<lparr>Ticket.EstDueDate := v\<rparr>)
     else if k = ''reopened'' then store (decode_string j (Ticket.Reopened t)) (\<lambda>v. t\<lparr>Ticket.Reopened := v\<rparr>)
     else if k = ''closed'' then store (decode_string j (Ticket.Closed t)) (\<lambda>v. t\<lparr>Ticket.Closed := v\<rparr>)
     else if k = ''lastupdate'' then store (decode_string j (Ticket.LastUpdate t)) (\<lambda>v. t\<lparr>Ticket.LastUpdate := v\<rparr>)
     else if k = ''created'' then store (decode_string j (Ticket.Created t)) (\<lambda>v. t\<lparr>Ticket.Created := v\<rparr>)
     else if k = ''updated'' then store (decode_string j (Ticket.Updated t)) (\<lambda>v. t\<lparr>Ticket.Updated := v\<rparr>)
     else Inr t)"

definition decode_Ticket :: "json \<Rightarrow> Ticket \<Rightarrow> json_error + Ticket" where
  "decode_Ticket = decode_struct Ticket_field"

record TicketData =
  Total :: int
  Tickets :: "Ticket list list"

definition zero_TicketData :: TicketData where
  "zero_TicketData = \<lparr>Total = 0, Tickets = []\<rparr>"

definition TicketData_field :: "string \<Rightarrow> json \<Rightarrow> TicketData \<Rightarrow> json_error + TicketData" where
  "TicketData_field k j d =
     (if k = ''total'' then store (decode_int j (TicketData.Total d)) (\<lambda>v. d\<lparr>TicketData.Total := v\<rparr>)
      else if k = ''tickets'' then
        store (decode_slice (decode_slice decode_Ticket zero_Ticket) [] j (TicketData.Tickets d))
          (\<lambda>v. d\<lparr>TicketData.Tickets := v\<rparr>)
      else Inr d)"

definition decode_TicketData :: "json \<Rightarrow> TicketData \<Rightarrow> json_error + TicketData" where
  "decode_TicketData = decode_struct TicketData_field"

text \<open>The two anonymous structs of \<^verbatim>\<open>GetTicket\<close>: \<^verbatim>\<open>flatData\<close> and \<^verbatim>\<open>singleData\<close>.\<close>

record flatData =
  Total :: int
  Tickets :: "Ticket list"

definition zero_flatData :: flatData where
  "zero_flatData = \<lparr>Total = 0, Tickets = []\<rparr>"

definition flatData_field :: "string \<Rightarrow> json \<Rightarrow> flatData \<Rightarrow> json_error + flatData" where
  "flatData_field k j d =
     (if k = ''total'' then store (decode_int j (flatData.Total d)) (\<lambda>v. d\<lparr>flatData.Total := v\<rparr>)
      else if k = ''tickets'' then
        store (decode_slice decode_Ticket zero_Ticket j (flatData.Tickets d))
          (\<lambda>v. d\<lparr>flatData.Tickets := v\<rparr>)
      else Inr d)"

definition decode_flatData :: "json \<Rightarrow> flatData \<Rightarrow> json_error + flatData" where
  "decode_flatData = decode_struct flatData_field"

record singleData =
  Total :: int
  Ticket :: Ticket

definition zero_singleData :: singleData where
  "zero_singleData = \<lparr>Total = 0, Ticket = zero_Ticket\<rparr>"

definition singleData_field :: "string \<Rightarrow> json \<Rightarrow> singleData \<Rightarrow> json_error + singleData" where
  "singleData_field k j d =
     (if k = ''total'' then store (decode_int j (singleData.Total d)) (\<lambda>v. d\<lparr>singleData.Total := v\<rparr>)
      else if k = ''ticket'' then
        store (decode_Ticket j (singleData.Ticket d)) (\<lambda>v. d\<lparr>singleData.Ticket := v\<rparr>)
      else Inr d)"

definition decode_singleData :: "json \<Rightarrow> singleData \<Rightarrow> json_error + singleData" where
  "decode_singleData = decode_struct singleData_field"

record User =
  UserID :: int
  Name :: string
  Created :: string

definition zero_User :: User where
  "zero_User = \<lparr>UserID = 0, Name = [], Created = []\<rparr>"

definition User_field :: "string \<Rightarrow> json \<Rightarrow> User \<Rightarrow> json_error + User" where
  "User_field k j u =
     (if k = ''user_id'' then store (decode_int j (User.UserID u)) (\<lambda>v. u\<lparr>User.UserID := v\<rparr>)
      else if k = ''name'' then store (decode_string j (User.Name u)) (\<lambda>v. u\<lparr>User.Name := v\<rparr>)
      else if k = ''created'' then store (decode_string j (User.Created u)) (\<lambda>v. u\<lparr>User.Created := v\<rparr>)
      else Inr u)"

definition decode_User :: "json \<Rightarrow> User \<Rightarrow> json_error + User" where
  "decode_User = decode_struct User_field"

record UserData =
  Total :: int
  Users :: "User list"

definition zero_UserData :: UserData where
  "zero_UserData = \<lparr>Total = 0, Users = []\<rparr>"

definition UserData_field :: "string \<Rightarrow> json \<Rightarrow> UserData \<Rightarrow> json_error + UserData" where
  "UserData_field k j d =
     (if k = ''total'' then store (decode_int j (UserData.Total d)) (\<lambda>v. d\<lparr>UserData.Total := v\<rparr>)
      else if k = ''users'' then
        store (decode_slice decode_User zero_User j (UserData.Users d)) (\<lambda>v. d\<lparr>UserData.Users := v\<rparr>)
      else Inr d)"

definition decode_UserData :: "json \<Rightarrow> UserData \<Rightarrow> json_error + UserData" where
  "decode_UserData = decode_struct UserData_field"

record Department =
  ID :: int
  Name :: string

definition zero_Department :: Department where
  "zero_Department = \<lparr>ID = 0, Name = []\<rparr>"

definition Department_field :: "string \<Rightarrow> json \<Rightarrow> Department \<Rightarrow> json_error + Department" where
  "Department_field k j d =
     (if k = ''id'' then store (decode_int j (Department.ID d)) (\<lambda>v. d\<lparr>Department.ID := v\<rparr>)
      else if k = ''name'' then store (decode_string j (Department.Name d)) (\<lambda>v. d\<lparr>Department.Name := v\<rparr>)
      else Inr d)"

definition decode_Department :: "json \<Rightarrow> Department \<Rightarrow> json_error + Department" where
  "decode_Department = decode_struct Department_field"

record DepartmentData =
  Total :: int
  Departments :: "Department list"

definition zero_DepartmentData :: DepartmentData where
  "zero_DepartmentData = \<lparr>Total = 0, Departments = []\<rparr>"

definition DepartmentData_field ::
  "string \<Rightarrow> json \<Rightarrow> DepartmentData \<Rightarrow> json_error + DepartmentData"
where
  "DepartmentData_field k j d =
     (if k = ''total'' then
        store (decode_int j (DepartmentData.Total d)) (\<lambda>v. d\<lparr>DepartmentData.Total := v\<rparr>)
      else if k = ''departments'' then
        store (decode_slice decode_Department zero_Department j (DepartmentData.Departments d))
          (\<lambda>v. d\<lparr>DepartmentData.Departments := v\<rparr>)
      else Inr d)"

definition decode_DepartmentData :: "json \<Rightarrow> DepartmentData \<Rightarrow> json_error + DepartmentData" where
  "decode_DepartmentData = decode_struct DepartmentData_field"

record Topic =
  TopicID :: int
  Topic :: string

definition zero_Topic :: Topic where
  "zero_Topic = \<lparr>TopicID = 0, Topic = []\<rparr>"

definition Topic_field :: "string \<Rightarrow> json \<Rightarrow> Topic \<Rightarrow> json_error + Topic" where
  "Topic_field k j d =
     (if k = ''topic_id'' then store (decode_int j (Topic.TopicID d)) (\<lambda>v. d\<lparr>Topic.TopicID := v\<rparr>)
      else if k = ''topic'' then store (decode_string j (Topic.Topic d)) (\<lambda>v. d\<lparr>Topic.Topic := v\<rparr>)
      else Inr d)"

definition decode_Topic :: "json \<Rightarrow> Topic \<Rightarrow> json_error + Topic" where
  "decode_Topic = decode_struct Topic_field"

record TopicData =
  Total :: int
  Topics :: "Topic list"

definition zero_TopicData :: TopicData where
  "zero_TopicData = \<lparr>Total = 0, Topics = []\<rparr>"

definition TopicData_field :: "string \<Rightarrow> json \<Rightarrow> TopicData \<Rightarrow> json_error + TopicData" where
  "TopicData_field k j d =
     (if k = ''total'' then store (decode_int j (TopicData.Total d)) (\<lambda>v. d\<lparr>TopicData.Total := v\<rparr>)
      else if k = ''topics'' then
        store (decode_slice decode_Topic zero_Topic j (TopicData.Topics d)) (\<lambda>v. d\<lparr>TopicData.Topics := v\<rparr>)
      else Inr d)"

definition decode_TopicData :: "json \<Rightarrow> TopicData \<Rightarrow> json_error + TopicData" where
  "decode_TopicData = decode_struct TopicData_field"

record SLA =
  ID :: int
  Name :: string
  GracePeriod :: int

definition zero_SLA :: SLA where
  "zero_SLA = \<lparr>ID = 0, Name = [], GracePeriod = 0\<rparr>"

definition SLA_field :: "string \<Rightarrow> json \<Rightarrow> SLA \<Rightarrow> json_error + SLA" where
  "SLA_field k j d =
     (if k = ''id'' then store (decode_int j (SLA.ID d)) (\<lambda>v. d\<lparr>SLA.ID := v\<rparr>)
      else if k = ''name'' then store (decode_string j (SLA.Name d)) (\<lambda>v. d\<lparr>SLA.Name := v\<rparr>)
      else if k = ''grace_period'' then
        store (decode_int j (SLA.GracePeriod d)) (\<lambda>v. d\<lparr>SLA.GracePeriod := v\<rparr>)
      else Inr d)"

definition decode_SLA :: "json \<Rightarrow> SLA \<Rightarrow> json_error + SLA" where
  "decode_SLA = decode_struct SLA_field"

record SLAData =
  Total :: int
  SLA :: "SLA list"

definition zero_SLAData :: SLAData where
  "zero_SLAData = \<lparr>Total = 0, SLA = []\<rparr>"

definition SLAData_field :: "string \<Rightarrow> json \<Rightarrow> SLAData \<Rightarrow> json_error + SLAData" where
  "SLAData_field k j d =
     (if k = ''total'' then store (decode_int j (SLAData.Total d)) (\<lambda>v. d\<lparr>SLAData.Total := v\<rparr>)
      else if k = ''sla'' then
        store (decode_slice decode_SLA zero_SLA j (SLAData.SLA d)) (\<lambda>v. d\<lparr>SLAData.SLA := v\<rparr>)
      else Inr d)"

definition decode_SLAData :: "json \<Rightarrow> SLAData \<Rightarrow> json_error + SLAData" where
  "decode_SLAData = decode_struct SLAData_field"

section \<open>The client and the HTTP exchange\<close>

text \<open>
  The values the client puts into \<^verbatim>\<open>map[string]interface{}\<close> are Go strings
  and Go ints. A Go map has each key once, so \<^verbatim>\<open>Parameters\<close> is a partial
  function on keys.
\<close>

datatype param = PString string | PInt int

record Request =
  Query :: string
  Condition :: string
  Sort :: string
  Parameters :: "string \<rightharpoonup> param"

text \<open>
  The envelope. \<^verbatim>\<open>Data\<close> is the raw \<^verbatim>\<open>data\<close> member: \<open>None\<close> when the member is
  absent, else its JSON value. \<^verbatim>\<open>Time\<close> is never read by the client.
\<close>

record Response =
  Status :: string
  Message :: string
  Time :: real
  Data :: "json option"

record Client =
  BaseURL :: string
  APIKey :: string

datatype http_method = GET | POST

text \<open>
  What \<^verbatim>\<open>doRequest\<close> and \<^verbatim>\<open>doGetRequest\<close> hand to \<^verbatim>\<open>HTTPClient.Do\<close>: the fields
  of \<^verbatim>\<open>http.Request\<close> they fill. The body is \<^verbatim>\<open>json.Marshal(req)\<close> and is kept as
  the envelope it encodes. Header names are case-insensitive in HTTP and are
  kept as the code writes them.
\<close>

record http_request =
  Method :: http_method
  URL :: string
  Header :: "string \<rightharpoonup> string"
  Body :: Request

text \<open>
  The outside world. \<open>new_request_ok\<close> says whether \<^verbatim>\<open>http.NewRequest\<close> accepts
  the URL. \<open>exchange\<close> maps the requests sent so far in this process (the last
  one being the current request) to what the current call sees: \<^verbatim>\<open>Do\<close> fails
  (network, the 30 second timeout), reading the body fails, the body is not a
  JSON response envelope, or it decodes to an envelope.
\<close>

datatype http_reply = DoFailed | ReadFailed | Unparsable | Envelope Response

record network =
  new_request_ok :: "string \<Rightarrow> bool"
  exchange :: "http_request list \<Rightarrow> http_reply"

definition NewRequest :: "network \<Rightarrow> http_method \<Rightarrow> string \<Rightarrow> Request \<Rightarrow> http_request option" where
  "NewRequest net m u b =
     (if new_request_ok net u then Some \<lparr>Method = m, URL = u, Header = Map.empty, Body = b\<rparr>
      else None)"

definition Header_Set :: "string \<Rightarrow> string \<Rightarrow> http_request \<Rightarrow> http_request" where
  "Header_Set key val r = r\<lparr>Header := (Header r)(key \<mapsto> val)\<rparr>"

text \<open>
  One constructor for each \<^verbatim>\<open>fmt.Errorf\<close> of the package.
  \<open>APIError m\<close> is \<^verbatim>\<open>"API error: <m>"\<close>;
  \<open>ParseFailed what e\<close> is \<^verbatim>\<open>"failed to parse <what>: <e>"\<close>;
  \<open>FormatError\<close> is \<^verbatim>\<open>"failed to parse ticket data: unexpected response format"\<close>.
  The first five are the transport failures of \<^verbatim>\<open>doRequest\<close> and \<^verbatim>\<open>doGetRequest\<close>.
\<close>

datatype error =
    MarshalFailed
  | CreateRequestFailed
  | RequestFailed
  | ReadResponseFailed
  | ParseResponseFailed
  | APIError string
  | ParseFailed string json_error
  | FormatError

type_synonym sent = "http_request list"

text \<open>
  \<^verbatim>\<open>doRequest\<close> (POST). \<^verbatim>\<open>json.Marshal\<close> cannot fail on an envelope whose
  parameters are strings and ints, so that branch is absent. A request counts
  as sent once it is handed to \<^verbatim>\<open>Do\<close>.
\<close>

definition doRequest :: "network \<Rightarrow> Client \<Rightarrow> Request \<Rightarrow> sent \<Rightarrow> (error + Response) \<times> sent" where
  "doRequest net c req hist =
     (case NewRequest net POST (BaseURL c) req of
        None \<Rightarrow> (Inl CreateRequestFailed, hist)
      | Some r0 \<Rightarrow>
          let httpReq = Header_Set ''apikey'' (APIKey c)
                          (Header_Set ''Content-Type'' ''application/json'' r0);
              hist' = hist @ [httpReq]
          in (case exchange net hist' of
                DoFailed \<Rightarrow> (Inl RequestFailed, hist')
              | ReadFailed \<Rightarrow> (Inl ReadResponseFailed, hist')
              | Unparsable \<Rightarrow> (Inl ParseResponseFailed, hist')
              | Envelope apiResp \<Rightarrow>
                  (if Status apiResp = ''Error'' then (Inl (APIError (Message apiResp)), hist')
                   else (Inr apiResp, hist'))))"

text \<open>\<^verbatim>\<open>doGetRequest\<close>: the same with method GET.\<close>

definition doGetRequest :: "network \<Rightarrow> Client \<Rightarrow> Request \<Rightarrow> sent \<Rightarrow> (error + Response) \<times> sent" where
  "doGetRequest net c req hist =
     (case NewRequest net GET (BaseURL c) req of
        None \<Rightarrow> (Inl CreateRequestFailed, hist)
      | Some r0 \<Rightarrow>
          let httpReq = Header_Set ''apikey'' (APIKey c)
                          (Header_Set ''Content-Type'' ''application/json'' r0);
              hist' = hist @ [httpReq]
          in (case exchange net hist' of
                DoFailed \<Rightarrow> (Inl RequestFailed, hist')
              | ReadFailed \<Rightarrow> (Inl ReadResponseFailed, hist')
              | Unparsable \<Rightarrow> (Inl ParseResponseFailed, hist')
              | Envelope apiResp \<Rightarrow>
                  (if Status apiResp = ''Error'' then (Inl (APIError (Message apiResp)), hist')
                   else (Inr apiResp, hist'))))"

section \<open>Ticket operations\<close>

text \<open>The loop of \<^verbatim>\<open>GetTicket\<close> that wraps each ticket of the flat array.\<close>

fun nestedTickets :: "Ticket list \<Rightarrow> Ticket list list \<Rightarrow> Ticket list list" where
  "nestedTickets [] acc = acc"
| "nestedTickets (t # ts) acc = nestedTickets ts (acc @ [[t]])"

text \<open>
  The three decode attempts of \<^verbatim>\<open>GetTicket\<close> on \<^verbatim>\<open>resp.Data\<close>, each into a fresh
  variable.
\<close>

definition GetTicket_data :: "json option \<Rightarrow> error + TicketData" where
  "GetTicket_data raw =
     (case unmarshal decode_TicketData zero_TicketData raw of
        Inr data \<Rightarrow> Inr data
      | Inl _ \<Rightarrow>
         (case unmarshal decode_flatData zero_flatData raw of
            Inr flat \<Rightarrow>
              Inr \<lparr>TicketData.Total = flatData.Total flat,
                   TicketData.Tickets = nestedTickets (flatData.Tickets flat) []\<rparr>
          | Inl _ \<Rightarrow>
             (case unmarshal decode_singleData zero_singleData raw of
                Inr single \<Rightarrow>
                  Inr \<lparr>TicketData.Total = singleData.Total single,
                       TicketData.Tickets = [[singleData.Ticket single]]\<rparr>
              | Inl _ \<Rightarrow> Inl FormatError)))"

definition GetTicket_Request :: "string \<Rightarrow> Request" where
  "GetTicket_Request ident =
     \<lparr>Query = ''ticket'', Condition = ''specific'', Sort = [],
       Parameters = [''id'' \<mapsto> PString ident]\<rparr>"

definition GetTicket :: "network \<Rightarrow> Client \<Rightarrow> string \<Rightarrow> sent \<Rightarrow> (error + TicketData) \<times> sent" where
  "GetTicket net c ident hist =
     (case doGetRequest net c (GetTicket_Request ident) hist of
        (Inl err, hist') \<Rightarrow> (Inl err, hist')
      | (Inr resp, hist') \<Rightarrow> (GetTicket_data (Data resp), hist'))"

text \<open>The decode step shared in shape by the listings: one attempt, error wrapped.\<close>

definition parse_as ::
  "string \<Rightarrow> (json \<Rightarrow> 'a \<Rightarrow> json_error + 'a) \<Rightarrow> 'a \<Rightarrow> json option \<Rightarrow> error + 'a"
where
  "parse_as what dec zero raw =
     (case unmarshal dec zero raw of
        Inl e \<Rightarrow> Inl (ParseFailed what e)
      | Inr data \<Rightarrow> Inr data)"

definition GetTicketsByStatus_Request :: "int \<Rightarrow> Request" where
  "GetTicketsByStatus_Request status =
     \<lparr>Query = ''ticket'', Condition = ''all'', Sort = ''status'',
       Parameters = [''status'' \<mapsto> PInt status]\<rparr>"

definition GetTicketsByStatus :: "network \<Rightarrow> Client \<Rightarrow> int \<Rightarrow> sent \<Rightarrow> (error + TicketData) \<times> sent" where
  "GetTicketsByStatus net c status hist =
     (case doRequest net c (GetTicketsByStatus_Request status) hist of
        (Inl err, hist') \<Rightarrow> (Inl err, hist')
      | (Inr resp, hist') \<Rightarrow>
          (parse_as ''ticket data'' decode_TicketData zero_TicketData (Data resp), hist'))"

definition GetTicketsByDateRange_Request :: "string \<Rightarrow> string \<Rightarrow> Request" where
  "GetTicketsByDateRange_Request startDate endDate =
     \<lparr>Query = ''ticket'', Condition = ''all'', Sort = ''creationDate'',
       Parameters = [''start_date'' \<mapsto> PString startDate, ''end_date'' \<mapsto> PString endDate]\<rparr>"

definition GetTicketsByDateRange ::
  "network \<Rightarrow> Client \<Rightarrow> string \<Rightarrow> string \<Rightarrow> sent \<Rightarrow> (error + TicketData) \<times> sent"
where
  "GetTicketsByDateRange net c startDate endDate hist =
     (case doRequest net c (GetTicketsByDateRange_Request startDate endDate) hist of
        (Inl err, hist') \<Rightarrow> (Inl err, hist')
      | (Inr resp, hist') \<Rightarrow>
          (parse_as ''ticket data'' decode_TicketData zero_TicketData (Data resp), hist'))"

record CreateTicketParams =
  Title :: string
  Subject :: string
  UserID :: int
  PriorityID :: int
  StatusID :: int
  DeptID :: int
  SLAID :: int
  TopicID :: int

definition CreateTicket_Request :: "CreateTicketParams \<Rightarrow> Request" where
  "CreateTicket_Request params =
     \<lparr>Query = ''ticket'', Condition = ''add'', Sort = [],
       Parameters = [
       ''title'' \<mapsto> PString (CreateTicketParams.Title params),
       ''subject'' \<mapsto> PString (CreateTicketParams.Subject params),
       ''user_id'' \<mapsto> PInt (CreateTicketParams.UserID params),
       ''priority_id'' \<mapsto> PInt (CreateTicketParams.PriorityID params),
       ''status_id'' \<mapsto> PInt (CreateTicketParams.StatusID params),
       ''dept_id'' \<mapsto> PInt (CreateTicketParams.DeptID params),
       ''sla_id'' \<mapsto> PInt (CreateTicketParams.SLAID params),
       ''topic_id'' \<mapsto> PInt (CreateTicketParams.TopicID params)]\<rparr>"

definition CreateTicket :: "network \<Rightarrow> Client \<Rightarrow> CreateTicketParams \<Rightarrow> sent \<Rightarrow> (error + int) \<times> sent" where
  "CreateTicket net c params hist =
     (case doRequest net c (CreateTicket_Request params) hist of
        (Inl err, hist') \<Rightarrow> (Inl err, hist')
      | (Inr resp, hist') \<Rightarrow> (parse_as ''ticket ID'' decode_int 0 (Data resp), hist'))"

definition ReplyToTicket_Request :: "int \<Rightarrow> string \<Rightarrow> int \<Rightarrow> Request" where
  "ReplyToTicket_Request ticketID body staffID =
     \<lparr>Query = ''ticket'', Condition = ''reply'', Sort = [],
       Parameters = [
       ''ticket_id'' \<mapsto> PInt ticketID,
       ''body'' \<mapsto> PString body,
       ''staff_id'' \<mapsto> PInt staffID]\<rparr>"

definition ReplyToTicket :: "network \<Rightarrow> Client \<Rightarrow> int \<Rightarrow> string \<Rightarrow> int \<Rightarrow> sent \<Rightarrow> error option \<times> sent" where
  "ReplyToTicket net c ticketID body staffID hist =
     (case doRequest net c (ReplyToTicket_Request ticketID body staffID) hist of
        (Inl err, hist') \<Rightarrow> (Some err, hist')
      | (Inr _, hist') \<Rightarrow> (None, hist'))"

record CloseTicketParams =
  TicketID :: int
  Body :: string
  StaffID :: int
  StatusID :: int
  TeamID :: int
  DeptID :: int
  TopicID :: int
  Username :: string

definition CloseTicket_Request :: "CloseTicketParams \<Rightarrow> Request" where
  "CloseTicket_Request params =
     \<lparr>Query = ''ticket'', Condition = ''close'', Sort = [],
       Parameters = [
       ''ticket_id'' \<mapsto> PInt (CloseTicketParams.TicketID params),
       ''body'' \<mapsto> PString (CloseTicketParams.Body params),
       ''staff_id'' \<mapsto> PInt (CloseTicketParams.StaffID params),
       ''status_id'' \<mapsto> PInt (CloseTicketParams.StatusID params),
       ''team_id'' \<mapsto> PInt (CloseTicketParams.TeamID params),
       ''dept_id'' \<mapsto> PInt (CloseTicketParams.DeptID params),
       ''topic_id'' \<mapsto> PInt (CloseTicketParams.TopicID params),
       ''username'' \<mapsto> PString (CloseTicketParams.Username params)]\<rparr>"

definition CloseTicket :: "network \<Rightarrow> Client \<Rightarrow> CloseTicketParams \<Rightarrow> sent \<Rightarrow> error option \<times> sent" where
  "CloseTicket net c params hist =
     (case doRequest net c (CloseTicket_Request params) hist of
        (Inl err, hist') \<Rightarrow> (Some err, hist')
      | (Inr _, hist') \<Rightarrow> (None, hist'))"

section \<open>User and information operations\<close>

definition GetUserByID_Request :: "string \<Rightarrow> Request" where
  "GetUserByID_Request ident =
     \<lparr>Query = ''user'', Condition = ''specific'', Sort = ''id'',
       Parameters = [''id'' \<mapsto> PString ident]\<rparr>"

definition GetUserByID :: "network \<Rightarrow> Client \<Rightarrow> string \<Rightarrow> sent \<Rightarrow> (error + UserData) \<times> sent" where
  "GetUserByID net c ident hist =
     (case doRequest net c (GetUserByID_Request ident) hist of
        (Inl err, hist') \<Rightarrow> (Inl err, hist')
      | (Inr resp, hist') \<Rightarrow> (parse_as ''user data'' decode_UserData zero_UserData (Data resp), hist'))"

definition GetUserByEmail_Request :: "string \<Rightarrow> Request" where
  "GetUserByEmail_Request email =
     \<lparr>Query = ''user'', Condition = ''specific'', Sort = ''email'',
       Parameters = [''email'' \<mapsto> PString email]\<rparr>"

definition GetUserByEmail :: "network \<Rightarrow> Client \<Rightarrow> string \<Rightarrow> sent \<Rightarrow> (error + UserData) \<times> sent" where
  "GetUserByEmail net c email hist =
     (case doRequest net c (GetUserByEmail_Request email) hist of
        (Inl err, hist') \<Rightarrow> (Inl err, hist')
      | (Inr resp, hist') \<Rightarrow> (parse_as ''user data'' decode_UserData zero_UserData (Data resp), hist'))"

record CreateUserParams =
  Name :: string
  Email :: string
  Password :: string
  Phone :: string
  Timezone :: string
  OrgID :: int
  DefaultEmailID :: int
  Status :: int

definition CreateUser_Request :: "CreateUserParams \<Rightarrow> Request" where
  "CreateUser_Request params =
     \<lparr>Query = ''user'', Condition = ''add'', Sort = [],
       Parameters = [
       ''name'' \<mapsto> PString (CreateUserParams.Name params),
       ''email'' \<mapsto> PString (CreateUserParams.Email params),
       ''password'' \<mapsto> PString (CreateUserParams.Password params),
       ''phone'' \<mapsto> PString (CreateUserParams.Phone params),
       ''timezone'' \<mapsto> PString (CreateUserParams.Timezone params),
       ''org_id'' \<mapsto> PInt (CreateUserParams.OrgID params),
       ''default_email_id'' \<mapsto> PInt (CreateUserParams.DefaultEmailID params),
       ''status'' \<mapsto> PInt (CreateUserParams.Status params)]\<rparr>"

definition CreateUser :: "network \<Rightarrow> Client \<Rightarrow> CreateUserParams \<Rightarrow> sent \<Rightarrow> (error + int) \<times> sent" where
  "CreateUser net c params hist =
     (case doRequest net c (CreateUser_Request params) hist of
        (Inl err, hist') \<Rightarrow> (Inl err, hist')
      | (Inr resp, hist') \<Rightarrow> (parse_as ''user ID'' decode_int 0 (Data resp), hist'))"

definition GetDepartments_Request :: "Request" where
  "GetDepartments_Request =
     \<lparr>Query = ''department'', Condition = ''all'', Sort = ''all'', Parameters = Map.empty\<rparr>"

definition GetDepartments :: "network \<Rightarrow> Client \<Rightarrow> sent \<Rightarrow> (error + DepartmentData) \<times> sent" where
  "GetDepartments net c hist =
     (case doRequest net c GetDepartments_Request hist of
        (Inl err, hist') \<Rightarrow> (Inl err, hist')
      | (Inr resp, hist') \<Rightarrow>
          (parse_as ''department data'' decode_DepartmentData zero_DepartmentData (Data resp), hist'))"

definition GetTopics_Request :: "Request" where
  "GetTopics_Request =
     \<lparr>Query = ''topics'', Condition = ''all'', Sort = ''all'', Parameters = Map.empty\<rparr>"

definition GetTopics :: "network \<Rightarrow> Client \<Rightarrow> sent \<Rightarrow> (error + TopicData) \<times> sent" where
  "GetTopics net c hist =
     (case doRequest net c GetTopics_Request hist of
        (Inl err, hist') \<Rightarrow> (Inl err, hist')
      | (Inr resp, hist') \<Rightarrow> (parse_as ''topic data'' decode_TopicData zero_TopicData (Data resp), hist'))"

definition GetSLAs_Request :: "Request" where
  "GetSLAs_Request =
     \<lparr>Query = ''sla'', Condition = ''all'', Sort = ''all'', Parameters = Map.empty\<rparr>"

definition GetSLAs :: "network \<Rightarrow> Client \<Rightarrow> sent \<Rightarrow> (error + SLAData) \<times> sent" where
  "GetSLAs net c hist =
     (case doRequest net c GetSLAs_Request hist of
        (Inl err, hist') \<Rightarrow> (Inl err, hist')
      | (Inr resp, hist') \<Rightarrow> (parse_as ''SLA data'' decode_SLAData zero_SLAData (Data resp), hist'))"

section \<open>Searching tickets by email\<close>

text \<open>The inner loop of the filter: stop at the first ticket of the user.\<close>

fun group_has_user :: "Ticket list \<Rightarrow> int \<Rightarrow> bool" where
  "group_has_user [] uid = False"
| "group_has_user (t # ts) uid = (if Ticket.UserID t = uid then True else group_has_user ts uid)"

text \<open>The outer loop: append the group when the inner loop found a ticket.\<close>

fun filter_groups :: "Ticket list list \<Rightarrow> int \<Rightarrow> Ticket list list \<Rightarrow> Ticket list list" where
  "filter_groups [] uid filtered = filtered"
| "filter_groups (ticketGroup # rest) uid filtered =
     filter_groups rest uid
       (if group_has_user ticketGroup uid then filtered @ [ticketGroup] else filtered)"

text \<open>
  The three results of \<^verbatim>\<open>SearchTicketsByEmail\<close>: the ticket data, the user and
  the error, each \<open>None\<close> for \<^verbatim>\<open>nil\<close>.
\<close>

definition SearchTicketsByEmail ::
  "network \<Rightarrow> Client \<Rightarrow> string \<Rightarrow> sent \<Rightarrow> (TicketData option \<times> User option \<times> error option) \<times> sent"
where
  "SearchTicketsByEmail net c email hist =
     (case GetUserByEmail net c email hist of
        (Inl err, hist1) \<Rightarrow> ((None, None, Some err), hist1)
      | (Inr userData, hist1) \<Rightarrow>
          (case UserData.Users userData of
             [] \<Rightarrow> ((Some \<lparr>TicketData.Total = 0, TicketData.Tickets = []\<rparr>, None, None), hist1)
           | user # _ \<Rightarrow>
               (case GetTicketsByStatus net c 0 hist1 of
                  (Inl err, hist2) \<Rightarrow> ((None, Some user, Some err), hist2)
                | (Inr allTickets, hist2) \<Rightarrow>
                    let filtered = filter_groups (TicketData.Tickets allTickets) (User.UserID user) []
                    in ((Some \<lparr>TicketData.Total = int (length filtered),
                               TicketData.Tickets = filtered\<rparr>,
                         Some user, None), hist2))))"

section \<open>Package \<^verbatim>\<open>config\<close>\<close>

text \<open>
  The process environment maps a variable to its value when it is set.
  \<^verbatim>\<open>os.Getenv\<close> returns the empty string for a variable that is not set.
\<close>

type_synonym environ = "string \<rightharpoonup> string"

definition Getenv :: "environ \<Rightarrow> string \<Rightarrow> string" where
  "Getenv env name = (case env name of None \<Rightarrow> [] | Some v \<Rightarrow> v)"

definition EnvBaseURL :: string where
  "EnvBaseURL = ''OSTICKET_BASE_URL''"

definition EnvAPIKey :: string where
  "EnvAPIKey = ''OSTICKET_API_KEY''"

text \<open>
  The package keeps one \<^verbatim>\<open>viper\<close> instance, \<^verbatim>\<open>cfg\<close>. What the package uses of it:
  values put by \<^verbatim>\<open>Set\<close>, the variables bound by \<^verbatim>\<open>BindEnv\<close>, the values read from
  the config file, and the defaults. \<^verbatim>\<open>GetString\<close> takes the first of these
  that holds the key, in that order; a bound variable counts only when it is
  set to a non-empty string; a key held nowhere gives the empty string. The
  values of the file are taken as the strings \<^verbatim>\<open>GetString\<close> makes of them.
\<close>

record viper =
  override :: "string \<rightharpoonup> string"
  env_binding :: "string \<rightharpoonup> string"
  config :: "string \<rightharpoonup> string"
  defaults :: "string \<rightharpoonup> string"

definition GetString :: "viper \<Rightarrow> environ \<Rightarrow> string \<Rightarrow> string" where
  "GetString v env key =
     (case override v key of
        Some s \<Rightarrow> s
      | None \<Rightarrow>
         (case (case env_binding v key of
                  None \<Rightarrow> None
                | Some name \<Rightarrow> if Getenv env name \<noteq> [] then Some (Getenv env name) else None) of
            Some s \<Rightarrow> s
          | None \<Rightarrow>
             (case config v key of
                Some s \<Rightarrow> s
              | None \<Rightarrow>
                 (case defaults v key of
                    Some s \<Rightarrow> s
                  | None \<Rightarrow> []))))"

text \<open>
  \<^verbatim>\<open>init\<close>: \<open>file\<close> is what \<^verbatim>\<open>ReadInConfig\<close> delivers from
  \<^verbatim>\<open>~/.osticket-cli/config.yaml\<close>, and is empty when there is no such file or
  it cannot be read (both are tolerated).
\<close>

definition init :: "(string \<rightharpoonup> string) \<Rightarrow> viper" where
  "init file =
     \<lparr>override = Map.empty,
      env_binding = [''base_url'' \<mapsto> EnvBaseURL, ''api_key'' \<mapsto> EnvAPIKey],
      config = file,
      defaults = [''base_url'' \<mapsto> [], ''api_key'' \<mapsto> []]\<rparr>"

definition GetBaseURL :: "environ \<Rightarrow> viper \<Rightarrow> string" where
  "GetBaseURL env cfg =
     (let envVal = Getenv env EnvBaseURL
      in if envVal \<noteq> [] then envVal else GetString cfg env ''base_url'')"

definition GetAPIKey :: "environ \<Rightarrow> viper \<Rightarrow> string" where
  "GetAPIKey env cfg =
     (let envVal = Getenv env EnvAPIKey
      in if envVal \<noteq> [] then envVal else GetString cfg env ''api_key'')"

definition IsConfigured :: "environ \<Rightarrow> viper \<Rightarrow> bool" where
  "IsConfigured env cfg \<longleftrightarrow> GetBaseURL env cfg \<noteq> [] \<and> GetAPIKey env cfg \<noteq> []"

text \<open>The value a config file holds under a key, the empty string when it holds none.\<close>

definition persisted :: "(string \<rightharpoonup> string) \<Rightarrow> string \<Rightarrow> string" where
  "persisted file key = (case file key of None \<Rightarrow> [] | Some v \<Rightarrow> v)"

section \<open>Notions used in the statements\<close>

text \<open>
  The request that \<^verbatim>\<open>doRequest\<close> (\<open>POST\<close>) or \<^verbatim>\<open>doGetRequest\<close> (\<open>GET\<close>) puts on the
  wire for an envelope, written out field by field.
\<close>

definition wire :: "http_method \<Rightarrow> Client \<Rightarrow> Request \<Rightarrow> http_request" where
  "wire m c req =
     \<lparr>Method = m, URL = BaseURL c,
      Header = [''Content-Type'' \<mapsto> ''application/json'', ''apikey'' \<mapsto> APIKey c],
      Body = req\<rparr>"

text \<open>The requests a call added to the history.\<close>

definition added :: "sent \<Rightarrow> sent \<Rightarrow> sent" where
  "added before after = drop (length before) after"

text \<open>
  The three shapes of a ticket payload as the specification writes them:
  \<open>{total, tickets: [[record...], ...]}\<close>, \<open>{total, tickets: [record, ...]}\<close> and
  \<open>{total, ticket: record}\<close>, a record being a JSON object and \<open>total\<close> a number.
  They are used to state what the specification claims, not to model the code.
\<close>

fun is_array :: "json \<Rightarrow> bool" where
  "is_array (JArray _) = True"
| "is_array _ = False"

fun is_object :: "json \<Rightarrow> bool" where
  "is_object (JObject _) = True"
| "is_object _ = False"

fun is_number :: "json \<Rightarrow> bool" where
  "is_number (JInt _) = True"
| "is_number (JFloat _) = True"
| "is_number _ = False"

fun member :: "json \<Rightarrow> string \<Rightarrow> json option" where
  "member (JObject kvs) k = map_of kvs k"
| "member _ k = None"

definition nested_array_shape :: "json \<Rightarrow> bool" where
  "nested_array_shape j \<longleftrightarrow>
     (case member j ''total'' of Some n \<Rightarrow> is_number n | None \<Rightarrow> False) \<and>
     (case member j ''tickets'' of
        Some (JArray gs) \<Rightarrow> list_all (\<lambda>g. case g of JArray rs \<Rightarrow> list_all is_object rs | _ \<Rightarrow> False) gs
      | _ \<Rightarrow> False)"

definition flat_array_shape :: "json \<Rightarrow> bool" where
  "flat_array_shape j \<longleftrightarrow>
     (case member j ''total'' of Some n \<Rightarrow> is_number n | None \<Rightarrow> False) \<and>
     (case member j ''tickets'' of
        Some (JArray rs) \<Rightarrow> list_all is_object rs
      | _ \<Rightarrow> False)"

definition single_object_shape :: "json \<Rightarrow> bool" where
  "single_object_shape j \<longleftrightarrow>
     (case member j ''total'' of Some n \<Rightarrow> is_number n | None \<Rightarrow> False) \<and>
     (case member j ''ticket'' of Some r \<Rightarrow> is_object r | None \<Rightarrow> False)"

section \<open>Loops as list functions\<close>

lemma nestedTickets_eq: "nestedTickets ts acc = acc @ map (\<lambda>t. [t]) ts"
  by (induction ts arbitrary: acc) simp_all

lemma group_has_user_iff: "group_has_user g uid \<longleftrightarrow> (\<exists>t\<in>set g. Ticket.UserID t = uid)"
  by (induction g) auto

lemma filter_groups_eq:
  "filter_groups gs uid acc = acc @ filter (\<lambda>g. group_has_user g uid) gs"
  by (induction gs arbitrary: acc) simp_all

section \<open>Keys of the three ticket shapes\<close>

lemma foldName_total [simp]: "foldName ''total'' = ''total''"
  by code_simp

lemma foldName_tickets [simp]: "foldName ''tickets'' = ''tickets''"
  by code_simp

lemma foldName_ticket [simp]: "foldName ''ticket'' = ''ticket''"
  by code_simp

declare foldName.simps [simp del]

lemma decode_int_JInt [simp]:
  "decode_int (JInt n) cur = (if fits_int n then Inr n else Inl UnmarshalTypeError)"
  by (simp add: decode_int_def)

lemmas unmarshal_struct_defs =
  unmarshal_def decode_struct_def store_def decode_slice_def

section \<open>The transport\<close>

lemma doRequest_sent:
  "new_request_ok net (BaseURL c) \<Longrightarrow>
   doRequest net c req hist =
     (case exchange net (hist @ [wire POST c req]) of
        DoFailed \<Rightarrow> (Inl RequestFailed, hist @ [wire POST c req])
      | ReadFailed \<Rightarrow> (Inl ReadResponseFailed, hist @ [wire POST c req])
      | Unparsable \<Rightarrow> (Inl ParseResponseFailed, hist @ [wire POST c req])
      | Envelope apiResp \<Rightarrow>
          (if Response.Status apiResp = ''Error''
           then (Inl (APIError (Message apiResp)), hist @ [wire POST c req])
           else (Inr apiResp, hist @ [wire POST c req])))"
  by (simp add: doRequest_def NewRequest_def Header_Set_def wire_def Let_def split: http_reply.splits)

lemma doGetRequest_sent:
  "new_request_ok net (BaseURL c) \<Longrightarrow>
   doGetRequest net c req hist =
     (case exchange net (hist @ [wire GET c req]) of
        DoFailed \<Rightarrow> (Inl RequestFailed, hist @ [wire GET c req])
      | ReadFailed \<Rightarrow> (Inl ReadResponseFailed, hist @ [wire GET c req])
      | Unparsable \<Rightarrow> (Inl ParseResponseFailed, hist @ [wire GET c req])
      | Envelope apiResp \<Rightarrow>
          (if Response.Status apiResp = ''Error''
           then (Inl (APIError (Message apiResp)), hist @ [wire GET c req])
           else (Inr apiResp, hist @ [wire GET c req])))"
  by (simp add: doGetRequest_def NewRequest_def Header_Set_def wire_def Let_def split: http_reply.splits)

lemma doRequest_refused:
  "\<not> new_request_ok net (BaseURL c) \<Longrightarrow> doRequest net c req hist = (Inl CreateRequestFailed, hist)"
  by (simp add: doRequest_def NewRequest_def)

lemma doGetRequest_refused:
  "\<not> new_request_ok net (BaseURL c) \<Longrightarrow> doGetRequest net c req hist = (Inl CreateRequestFailed, hist)"
  by (simp add: doGetRequest_def NewRequest_def)

lemma doRequest_Error:
  "new_request_ok net (BaseURL c) \<Longrightarrow> exchange net (hist @ [wire POST c req]) = Envelope r \<Longrightarrow>
   Response.Status r = ''Error'' \<Longrightarrow>
   doRequest net c req hist = (Inl (APIError (Message r)), hist @ [wire POST c req])"
  by (simp add: doRequest_sent)

lemma doGetRequest_Error:
  "new_request_ok net (BaseURL c) \<Longrightarrow> exchange net (hist @ [wire GET c req]) = Envelope r \<Longrightarrow>
   Response.Status r = ''Error'' \<Longrightarrow>
   doGetRequest net c req hist = (Inl (APIError (Message r)), hist @ [wire GET c req])"
  by (simp add: doGetRequest_sent)

lemma doRequest_ok:
  "new_request_ok net (BaseURL c) \<Longrightarrow> exchange net (hist @ [wire POST c req]) = Envelope r \<Longrightarrow>
   Response.Status r \<noteq> ''Error'' \<Longrightarrow>
   doRequest net c req hist = (Inr r, hist @ [wire POST c req])"
  by (simp add: doRequest_sent)

lemma doGetRequest_ok:
  "new_request_ok net (BaseURL c) \<Longrightarrow> exchange net (hist @ [wire GET c req]) = Envelope r \<Longrightarrow>
   Response.Status r \<noteq> ''Error'' \<Longrightarrow>
   doGetRequest net c req hist = (Inr r, hist @ [wire GET c req])"
  by (simp add: doGetRequest_sent)

section \<open>The three shapes of a ticket payload\<close>

text \<open>The nested and the flat payload with the same records normalise alike.\<close>

lemma decode_elems_nested:
  "\<forall>r\<in>set rs. is_object r \<Longrightarrow>
   decode_elems decode_Ticket zero_Ticket rs = Inr ts \<Longrightarrow>
   decode_elems (decode_slice decode_Ticket zero_Ticket) [] (map (\<lambda>r. JArray [r]) rs)
     = Inr (map (\<lambda>t. [t]) ts)"
proof (induction rs arbitrary: ts)
  case Nil
  then show ?case by simp
next
  case (Cons r rs)
  then show ?case
    by (auto simp: decode_slice_def split: sum.splits)
qed

lemma flat_payload_normalised:
  assumes "fits_int n" and "rs \<noteq> []" and "\<forall>r\<in>set rs. is_object r"
    and "decode_elems decode_Ticket zero_Ticket rs = Inr ts"
  shows "GetTicket_data (Some (JObject [(''total'', JInt n), (''tickets'', JArray rs)]))
           = Inr \<lparr>TicketData.Total = n, TicketData.Tickets = map (\<lambda>t. [t]) ts\<rparr>"
proof -
  obtain kvs rs' where rs: "rs = JObject kvs # rs'"
    using assms(2,3) by (cases rs; cases "hd rs") auto
  have first_fails: "unmarshal decode_TicketData zero_TicketData
      (Some (JObject [(''total'', JInt n), (''tickets'', JArray rs)])) = Inl UnmarshalTypeError"
    using assms(1)
    by (simp add: rs unmarshal_struct_defs decode_TicketData_def TicketData_field_def)
  have second: "unmarshal decode_flatData zero_flatData
      (Some (JObject [(''total'', JInt n), (''tickets'', JArray rs)]))
      = Inr \<lparr>flatData.Total = n, flatData.Tickets = ts\<rparr>"
    using assms(1,4)
    by (simp add: unmarshal_struct_defs decode_flatData_def flatData_field_def zero_flatData_def)
  show ?thesis
    by (simp add: GetTicket_data_def first_fails second nestedTickets_eq)
qed

lemma nested_payload_passed_through:
  assumes "fits_int n" and "\<forall>r\<in>set rs. is_object r"
    and "decode_elems decode_Ticket zero_Ticket rs = Inr ts"
  shows "GetTicket_data (Some (JObject [(''total'', JInt n),
            (''tickets'', JArray (map (\<lambda>r. JArray [r]) rs))]))
           = Inr \<lparr>TicketData.Total = n, TicketData.Tickets = map (\<lambda>t. [t]) ts\<rparr>"
proof -
  have "unmarshal decode_TicketData zero_TicketData
      (Some (JObject [(''total'', JInt n), (''tickets'', JArray (map (\<lambda>r. JArray [r]) rs))]))
      = Inr \<lparr>TicketData.Total = n, TicketData.Tickets = map (\<lambda>t. [t]) ts\<rparr>"
    using assms(1) decode_elems_nested [OF assms(2,3)]
    by (simp add: unmarshal_struct_defs decode_TicketData_def TicketData_field_def zero_TicketData_def)
  then show ?thesis
    by (simp add: GetTicket_data_def)
qed

lemma single_object_first_attempt:
  "fits_int n \<Longrightarrow>
   unmarshal decode_TicketData zero_TicketData (Some (JObject [(''total'', JInt n), (''ticket'', r)]))
     = Inr \<lparr>TicketData.Total = n, TicketData.Tickets = []\<rparr>"
  by (simp add: unmarshal_struct_defs decode_TicketData_def TicketData_field_def zero_TicketData_def)

text \<open>
  C1. The claim: the nested-array, flat-array and single-object payloads with
  the same records all normalise to the same \<open>{total, tickets: [[...]]}\<close>.
  For the single-object payload \<open>{total: n, ticket: r}\<close> the code does
  otherwise: the first attempt, into \<^verbatim>\<open>TicketData\<close>, skips the member
  \<open>ticket\<close> as unknown and succeeds, so \<^verbatim>\<open>GetTicket\<close> returns \<open>n\<close> with no
  ticket at all, whatever the record \<open>r\<close> is; the third attempt is never
  reached.
\<close>

theorem GetTicket_single_object_yields_no_ticket:
  "fits_int n \<Longrightarrow>
   GetTicket_data (Some (JObject [(''total'', JInt n), (''ticket'', r)]))
     = Inr \<lparr>TicketData.Total = n, TicketData.Tickets = []\<rparr>"
  by (simp add: GetTicket_data_def single_object_first_attempt)

theorem GetTicket_single_object_yields_no_ticket_witness:
  "fits_int 1 \<and>
   GetTicket_data (Some (JObject [(''total'', JInt 1),
       (''ticket'', JObject [(''ticket_id'', JInt 7), (''user_id'', JInt 3)])]))
     = Inr \<lparr>TicketData.Total = 1, TicketData.Tickets = []\<rparr> \<and>
   GetTicket_data (Some (JObject [(''total'', JInt 1),
       (''tickets'', JArray [JObject [(''ticket_id'', JInt 7), (''user_id'', JInt 3)]])]))
     = Inr \<lparr>TicketData.Total = 1,
            TicketData.Tickets = [[zero_Ticket\<lparr>Ticket.TicketID := 7, Ticket.UserID := 3\<rparr>]]\<rparr> \<and>
   GetTicket_data (Some (JObject [(''total'', JInt 1),
       (''tickets'', JArray [JArray [JObject [(''ticket_id'', JInt 7), (''user_id'', JInt 3)]]])]))
     = Inr \<lparr>TicketData.Total = 1,
            TicketData.Tickets = [[zero_Ticket\<lparr>Ticket.TicketID := 7, Ticket.UserID := 3\<rparr>]]\<rparr>"
proof -
  have ok: "fits_int 1"
    by (simp add: fits_int_def)
  have flat: "GetTicket_data (Some (JObject [(''total'', JInt 1),
       (''tickets'', JArray [JObject [(''ticket_id'', JInt 7), (''user_id'', JInt 3)]])]))
     = Inr \<lparr>TicketData.Total = 1,
            TicketData.Tickets = [[zero_Ticket\<lparr>Ticket.TicketID := 7, Ticket.UserID := 3\<rparr>]]\<rparr>"
    by code_simp
  have nested: "GetTicket_data (Some (JObject [(''total'', JInt 1),
       (''tickets'', JArray [JArray [JObject [(''ticket_id'', JInt 7), (''user_id'', JInt 3)]]])]))
     = Inr \<lparr>TicketData.Total = 1,
            TicketData.Tickets = [[zero_Ticket\<lparr>Ticket.TicketID := 7, Ticket.UserID := 3\<rparr>]]\<rparr>"
    by code_simp
  show ?thesis
    using ok flat nested
      GetTicket_single_object_yields_no_ticket [OF ok,
        of "JObject [(''ticket_id'', JInt 7), (''user_id'', JInt 3)]"]
    by simp
qed



lemma GetTicket_data_cases:
  "GetTicket_data raw =
     (if \<not> isl (unmarshal decode_TicketData zero_TicketData raw)
      then Inr (projr (unmarshal decode_TicketData zero_TicketData raw))
      else if \<not> isl (unmarshal decode_flatData zero_flatData raw)
      then Inr \<lparr>TicketData.Total = flatData.Total (projr (unmarshal decode_flatData zero_flatData raw)),
                TicketData.Tickets =
                  map (\<lambda>t. [t]) (flatData.Tickets (projr (unmarshal decode_flatData zero_flatData raw)))\<rparr>
      else if \<not> isl (unmarshal decode_singleData zero_singleData raw)
      then Inr \<lparr>TicketData.Total = singleData.Total (projr (unmarshal decode_singleData zero_singleData raw)),
                TicketData.Tickets = [[singleData.Ticket (projr (unmarshal decode_singleData zero_singleData raw))]]\<rparr>
      else Inl FormatError)"
  by (simp add: GetTicket_data_def nestedTickets_eq split: sum.splits)


lemma decode_struct_not_object:
  "j \<noteq> JNull \<Longrightarrow> \<forall>kvs. j \<noteq> JObject kvs \<Longrightarrow>
   decode_struct field j z = Inl UnmarshalTypeError"
  by (cases j) (simp_all add: decode_struct_def)

lemma not_an_object_fails:
  assumes "raw = None \<or> (\<exists>j. raw = Some j \<and> j \<noteq> JNull \<and> (\<forall>kvs. j \<noteq> JObject kvs))"
  shows "GetTicket_data raw = Inl FormatError"
proof (cases raw)
  case None
  then show ?thesis
    by (simp add: GetTicket_data_def unmarshal_def)
next
  case (Some j)
  with assms have "j \<noteq> JNull" and "\<forall>kvs. j \<noteq> JObject kvs"
    by auto
  with Some show ?thesis
    by (simp add: GetTicket_data_def unmarshal_def decode_TicketData_def decode_flatData_def
        decode_singleData_def decode_struct_not_object)
qed

lemma decode_members_skips:
  "\<forall>kv\<in>set kvs. \<forall>j d. field (foldName (fst kv)) j d = Inr d \<Longrightarrow>
   decode_members field kvs d = Inr d"
  by (induction kvs) auto

lemma TicketData_field_other:
  "k \<noteq> ''total'' \<Longrightarrow> k \<noteq> ''tickets'' \<Longrightarrow> TicketData_field k j d = Inr d"
  by (simp add: TicketData_field_def)

lemma object_without_total_tickets:
  assumes "\<forall>kv\<in>set kvs. foldName (fst kv) \<noteq> ''total'' \<and> foldName (fst kv) \<noteq> ''tickets''"
  shows "GetTicket_data (Some (JObject kvs)) = Inr \<lparr>TicketData.Total = 0, TicketData.Tickets = []\<rparr>"
proof -
  have "decode_members TicketData_field kvs zero_TicketData = Inr zero_TicketData"
    using assms by (intro decode_members_skips) (simp add: TicketData_field_other)
  then show ?thesis
    by (simp add: GetTicket_data_def unmarshal_def decode_TicketData_def decode_struct_def
        zero_TicketData_def)
qed

text \<open>
  C2. The claim: a payload that matches none of the three shapes makes
  \<^verbatim>\<open>GetTicket\<close> fail with \<open>FormatError\<close>, never with partial data. The code means
  that too: after its three attempts it returns \<^verbatim>\<open>unexpected response format\<close>.
  But it takes an attempt for a match whenever \<^verbatim>\<open>json.Unmarshal\<close> returns no
  error, and \<^verbatim>\<open>Unmarshal\<close> skips unknown members and leaves missing ones zero.
  So the code misses payloads the claim covers. The object \<open>{"foo": "bar"}\<close>
  has none of the three shapes, yet the first attempt succeeds on it and the
  call returns total 0 and no tickets, with no error. The object
  \<open>{"total": 1, "tickets": "none"}\<close> has none of them either; the first two
  attempts fail on \<open>tickets\<close>, the third ignores that member, and the call
  returns total 1 and one group holding one ticket that is zero in every
  field: data the server never sent. This is the defect of C1 seen from the
  other side.
\<close>

theorem unknown_object_is_accepted:
  "\<not> nested_array_shape (JObject [(''foo'', JString ''bar'')]) \<and>
   \<not> flat_array_shape (JObject [(''foo'', JString ''bar'')]) \<and>
   \<not> single_object_shape (JObject [(''foo'', JString ''bar'')]) \<and>
   GetTicket_data (Some (JObject [(''foo'', JString ''bar'')]))
     = Inr \<lparr>TicketData.Total = 0, TicketData.Tickets = []\<rparr> \<and>
   \<not> nested_array_shape (JObject [(''total'', JInt 1), (''tickets'', JString ''none'')]) \<and>
   \<not> flat_array_shape (JObject [(''total'', JInt 1), (''tickets'', JString ''none'')]) \<and>
   \<not> single_object_shape (JObject [(''total'', JInt 1), (''tickets'', JString ''none'')]) \<and>
   GetTicket_data (Some (JObject [(''total'', JInt 1), (''tickets'', JString ''none'')]))
     = Inr \<lparr>TicketData.Total = 1, TicketData.Tickets = [[zero_Ticket]]\<rparr>"
  by code_simp

text \<open>
  What the decoding step of \<^verbatim>\<open>GetTicket\<close> does on any payload, once the request
  went out and an envelope whose status is not \<open>Error\<close> came back. It returns
  \<open>FormatError\<close> exactly when all three \<^verbatim>\<open>Unmarshal\<close> calls return an error, and no
  other error. A payload that is absent, or is neither an object nor \<open>null\<close>,
  fails all three. An object none of whose members is named \<open>total\<close> or
  \<open>tickets\<close> (up to case) passes the first and gives total 0 and no tickets. A
  returned value is the result of the first, the second or the third call.
\<close>

lemma GetTicket_FormatError_iff_no_decode:
  assumes "new_request_ok net (BaseURL c)"
    and "exchange net (hist @ [wire GET c (GetTicket_Request ident)]) = Envelope resp"
    and "Response.Status resp \<noteq> ''Error''"
  shows "(isl (unmarshal decode_TicketData zero_TicketData (Data resp)) \<and>
          isl (unmarshal decode_flatData zero_flatData (Data resp)) \<and>
          isl (unmarshal decode_singleData zero_singleData (Data resp))
          \<longrightarrow> GetTicket net c ident hist
                = (Inl FormatError, hist @ [wire GET c (GetTicket_Request ident)])) \<and>
         (\<forall>e. fst (GetTicket net c ident hist) = Inl e \<longrightarrow>
            e = FormatError \<and>
            isl (unmarshal decode_TicketData zero_TicketData (Data resp)) \<and>
            isl (unmarshal decode_flatData zero_flatData (Data resp)) \<and>
            isl (unmarshal decode_singleData zero_singleData (Data resp))) \<and>
         (Data resp = None \<or>
          (\<exists>j. Data resp = Some j \<and> j \<noteq> JNull \<and> (\<forall>kvs. j \<noteq> JObject kvs))
          \<longrightarrow> GetTicket net c ident hist
                = (Inl FormatError, hist @ [wire GET c (GetTicket_Request ident)])) \<and>
         (\<forall>kvs. Data resp = Some (JObject kvs) \<and>
            (\<forall>kv\<in>set kvs. foldName (fst kv) \<noteq> ''total'' \<and> foldName (fst kv) \<noteq> ''tickets'')
            \<longrightarrow> GetTicket net c ident hist
                  = (Inr \<lparr>TicketData.Total = 0, TicketData.Tickets = []\<rparr>,
                     hist @ [wire GET c (GetTicket_Request ident)])) \<and>
         (\<forall>d. fst (GetTicket net c ident hist) = Inr d \<longrightarrow>
            unmarshal decode_TicketData zero_TicketData (Data resp) = Inr d \<or>
            (\<exists>flat. unmarshal decode_flatData zero_flatData (Data resp) = Inr flat \<and>
               d = \<lparr>TicketData.Total = flatData.Total flat,
                     TicketData.Tickets = map (\<lambda>t. [t]) (flatData.Tickets flat)\<rparr>) \<or>
            (\<exists>single. unmarshal decode_singleData zero_singleData (Data resp) = Inr single \<and>
               d = \<lparr>TicketData.Total = singleData.Total single,
                     TicketData.Tickets = [[singleData.Ticket single]]\<rparr>))"
proof -
  let ?A = "unmarshal decode_TicketData zero_TicketData (Data resp)"
  let ?B = "unmarshal decode_flatData zero_flatData (Data resp)"
  let ?C = "unmarshal decode_singleData zero_singleData (Data resp)"
  have run: "GetTicket net c ident hist
      = (GetTicket_data (Data resp), hist @ [wire GET c (GetTicket_Request ident)])"
    using assms by (simp add: GetTicket_def doGetRequest_ok)
  have none: "isl ?A \<and> isl ?B \<and> isl ?C \<Longrightarrow> GetTicket_data (Data resp) = Inl FormatError"
    by (simp add: GetTicket_data_cases)
  have err: "GetTicket_data (Data resp) = Inl e \<Longrightarrow> e = FormatError \<and> isl ?A \<and> isl ?B \<and> isl ?C" for e
    by (simp add: GetTicket_data_cases split: if_splits)
  have res: "GetTicket_data (Data resp) = Inr d \<Longrightarrow>
      ?A = Inr d \<or>
      (\<exists>flat. ?B = Inr flat \<and>
         d = \<lparr>TicketData.Total = flatData.Total flat,
               TicketData.Tickets = map (\<lambda>t. [t]) (flatData.Tickets flat)\<rparr>) \<or>
      (\<exists>single. ?C = Inr single \<and>
         d = \<lparr>TicketData.Total = singleData.Total single,
               TicketData.Tickets = [[singleData.Ticket single]]\<rparr>)" for d
  proof -
    assume g: "GetTicket_data (Data resp) = Inr d"
    show ?thesis
    proof (cases ?A)
      case (Inr a)
      with g show ?thesis by (simp add: GetTicket_data_def)
    next
      case A: (Inl ea)
      show ?thesis
      proof (cases ?B)
        case (Inr b)
        with g A show ?thesis by (simp add: GetTicket_data_def nestedTickets_eq)
      next
        case B: (Inl eb)
        show ?thesis
        proof (cases ?C)
          case (Inr s)
          with g A B show ?thesis by (simp add: GetTicket_data_def)
        next
          case (Inl ec)
          with g A B show ?thesis by (simp add: GetTicket_data_def)
        qed
      qed
    qed
  qed
  have nobj: "Data resp = None \<or>
      (\<exists>j. Data resp = Some j \<and> j \<noteq> JNull \<and> (\<forall>kvs. j \<noteq> JObject kvs)) \<Longrightarrow>
      GetTicket_data (Data resp) = Inl FormatError"
    by (rule not_an_object_fails)
  have lenient: "Data resp = Some (JObject kvs) \<and>
      (\<forall>kv\<in>set kvs. foldName (fst kv) \<noteq> ''total'' \<and> foldName (fst kv) \<noteq> ''tickets'') \<Longrightarrow>
      GetTicket_data (Data resp) = Inr \<lparr>TicketData.Total = 0, TicketData.Tickets = []\<rparr>" for kvs
    using object_without_total_tickets [of kvs] by auto
  show ?thesis
    unfolding run fst_conv prod.inject
    by (intro conjI allI impI) (use none err res nobj lenient in \<open>blast+\<close>)
qed



lemma GetTicket_FormatError_iff_no_decode_witness:
  "fst (GetTicket
     \<lparr>new_request_ok = (\<lambda>_. True),
      exchange = (\<lambda>_. Envelope \<lparr>Response.Status = ''Success'', Message = [], Time = 0,
                                 Data = Some (JArray [JInt 1])\<rparr>)\<rparr>
     \<lparr>BaseURL = ''https://h/'', APIKey = ''k''\<rparr> ''7'' []) = Inl FormatError"
proof -
  let ?resp = "\<lparr>Response.Status = ''Success'', Message = [], Time = 0, Data = Some (JArray [JInt 1])\<rparr>"
  let ?net = "\<lparr>new_request_ok = (\<lambda>_. True), exchange = (\<lambda>_. Envelope ?resp)\<rparr>"
  let ?c = "\<lparr>BaseURL = ''https://h/'', APIKey = ''k''\<rparr>"
  have a: "new_request_ok ?net (BaseURL ?c)"
    by simp
  have b: "exchange ?net ([] @ [wire GET ?c (GetTicket_Request ''7'')]) = Envelope ?resp"
    by simp
  have s: "Response.Status ?resp \<noteq> ''Error''"
    by simp
  have n: "isl (unmarshal decode_TicketData zero_TicketData (Data ?resp)) \<and>
          isl (unmarshal decode_flatData zero_flatData (Data ?resp)) \<and>
          isl (unmarshal decode_singleData zero_singleData (Data ?resp))"
    by (simp add: unmarshal_struct_defs decode_TicketData_def decode_flatData_def decode_singleData_def)
  from GetTicket_FormatError_iff_no_decode [OF a b s] n
  have "GetTicket ?net ?c ''7'' [] = (Inl FormatError, [] @ [wire GET ?c (GetTicket_Request ''7'')])"
    by blast
  then show ?thesis
    by (simp only: fst_conv)
qed


section \<open>What each operation sends\<close>

lemma snd_doRequest:
  "new_request_ok net (BaseURL c) \<Longrightarrow> snd (doRequest net c req hist) = hist @ [wire POST c req]"
  by (simp add: doRequest_sent split: http_reply.splits)

lemma snd_doGetRequest:
  "new_request_ok net (BaseURL c) \<Longrightarrow> snd (doGetRequest net c req hist) = hist @ [wire GET c req]"
  by (simp add: doGetRequest_sent split: http_reply.splits)

lemma snd_GetTicket:
  "snd (GetTicket net c ident hist) = snd (doGetRequest net c (GetTicket_Request ident) hist)"
  by (simp add: GetTicket_def split: prod.splits sum.splits)

lemma snd_GetTicketsByStatus:
  "snd (GetTicketsByStatus net c status hist) = snd (doRequest net c (GetTicketsByStatus_Request status) hist)"
  by (simp add: GetTicketsByStatus_def split: prod.splits sum.splits)

lemma snd_GetTicketsByDateRange:
  "snd (GetTicketsByDateRange net c startDate endDate hist) = snd (doRequest net c (GetTicketsByDateRange_Request startDate endDate) hist)"
  by (simp add: GetTicketsByDateRange_def split: prod.splits sum.splits)

lemma snd_CreateTicket:
  "snd (CreateTicket net c params hist) = snd (doRequest net c (CreateTicket_Request params) hist)"
  by (simp add: CreateTicket_def split: prod.splits sum.splits)

lemma snd_ReplyToTicket:
  "snd (ReplyToTicket net c ticketID body staffID hist) = snd (doRequest net c (ReplyToTicket_Request ticketID body staffID) hist)"
  by (simp add: ReplyToTicket_def split: prod.splits sum.splits)

lemma snd_CloseTicket:
  "snd (CloseTicket net c params hist) = snd (doRequest net c (CloseTicket_Request params) hist)"
  by (simp add: CloseTicket_def split: prod.splits sum.splits)

lemma snd_GetUserByID:
  "snd (GetUserByID net c ident hist) = snd (doRequest net c (GetUserByID_Request ident) hist)"
  by (simp add: GetUserByID_def split: prod.splits sum.splits)

lemma snd_GetUserByEmail:
  "snd (GetUserByEmail net c email hist) = snd (doRequest net c (GetUserByEmail_Request email) hist)"
  by (simp add: GetUserByEmail_def split: prod.splits sum.splits)

lemma snd_CreateUser:
  "snd (CreateUser net c params hist) = snd (doRequest net c (CreateUser_Request params) hist)"
  by (simp add: CreateUser_def split: prod.splits sum.splits)

lemma snd_GetDepartments:
  "snd (GetDepartments net c hist) = snd (doRequest net c GetDepartments_Request hist)"
  by (simp add: GetDepartments_def split: prod.splits sum.splits)

lemma snd_GetTopics:
  "snd (GetTopics net c hist) = snd (doRequest net c GetTopics_Request hist)"
  by (simp add: GetTopics_def split: prod.splits sum.splits)

lemma snd_GetSLAs:
  "snd (GetSLAs net c hist) = snd (doRequest net c GetSLAs_Request hist)"
  by (simp add: GetSLAs_def split: prod.splits sum.splits)

section \<open>Each operation on an error envelope and on a success envelope\<close>

lemma GetTicket_APIError:
  "new_request_ok net (BaseURL c) \<Longrightarrow> Response.Status r = ''Error'' \<Longrightarrow>
   exchange net (hist @ [wire GET c (GetTicket_Request ident)]) = Envelope r \<Longrightarrow>
   GetTicket net c ident hist = (Inl (APIError (Message r)), hist @ [wire GET c (GetTicket_Request ident)])"
  by (simp add: GetTicket_def doGetRequest_Error)

lemma GetTicket_ok:
  "new_request_ok net (BaseURL c) \<Longrightarrow> Response.Status resp \<noteq> ''Error'' \<Longrightarrow>
   exchange net (hist @ [wire GET c (GetTicket_Request ident)]) = Envelope resp \<Longrightarrow>
   GetTicket net c ident hist = (GetTicket_data (Data resp), hist @ [wire GET c (GetTicket_Request ident)])"
  by (simp add: GetTicket_def doGetRequest_ok)

lemma GetTicketsByStatus_APIError:
  "new_request_ok net (BaseURL c) \<Longrightarrow> Response.Status r = ''Error'' \<Longrightarrow>
   exchange net (hist @ [wire POST c (GetTicketsByStatus_Request status)]) = Envelope r \<Longrightarrow>
   GetTicketsByStatus net c status hist = (Inl (APIError (Message r)), hist @ [wire POST c (GetTicketsByStatus_Request status)])"
  by (simp add: GetTicketsByStatus_def doRequest_Error)

lemma GetTicketsByStatus_ok:
  "new_request_ok net (BaseURL c) \<Longrightarrow> Response.Status resp \<noteq> ''Error'' \<Longrightarrow>
   exchange net (hist @ [wire POST c (GetTicketsByStatus_Request status)]) = Envelope resp \<Longrightarrow>
   GetTicketsByStatus net c status hist = (parse_as ''ticket data'' decode_TicketData zero_TicketData (Data resp), hist @ [wire POST c (GetTicketsByStatus_Request status)])"
  by (simp add: GetTicketsByStatus_def doRequest_ok)

lemma GetTicketsByDateRange_APIError:
  "new_request_ok net (BaseURL c) \<Longrightarrow> Response.Status r = ''Error'' \<Longrightarrow>
   exchange net (hist @ [wire POST c (GetTicketsByDateRange_Request startDate endDate)]) = Envelope r \<Longrightarrow>
   GetTicketsByDateRange net c startDate endDate hist = (Inl (APIError (Message r)), hist @ [wire POST c (GetTicketsByDateRange_Request startDate endDate)])"
  by (simp add: GetTicketsByDateRange_def doRequest_Error)

lemma GetTicketsByDateRange_ok:
  "new_request_ok net (BaseURL c) \<Longrightarrow> Response.Status resp \<noteq> ''Error'' \<Longrightarrow>
   exchange net (hist @ [wire POST c (GetTicketsByDateRange_Request startDate endDate)]) = Envelope resp \<Longrightarrow>
   GetTicketsByDateRange net c startDate endDate hist = (parse_as ''ticket data'' decode_TicketData zero_TicketData (Data resp), hist @ [wire POST c (GetTicketsByDateRange_Request startDate endDate)])"
  by (simp add: GetTicketsByDateRange_def doRequest_ok)

lemma CreateTicket_APIError:
  "new_request_ok net (BaseURL c) \<Longrightarrow> Response.Status r = ''Error'' \<Longrightarrow>
   exchange net (hist @ [wire POST c (CreateTicket_Request params)]) = Envelope r \<Longrightarrow>
   CreateTicket net c params hist = (Inl (APIError (Message r)), hist @ [wire POST c (CreateTicket_Request params)])"
  by (simp add: CreateTicket_def doRequest_Error)

lemma CreateTicket_ok:
  "new_request_ok net (BaseURL c) \<Longrightarrow> Response.Status resp \<noteq> ''Error'' \<Longrightarrow>
   exchange net (hist @ [wire POST c (CreateTicket_Request params)]) = Envelope resp \<Longrightarrow>
   CreateTicket net c params hist = (parse_as ''ticket ID'' decode_int 0 (Data resp), hist @ [wire POST c (CreateTicket_Request params)])"
  by (simp add: CreateTicket_def doRequest_ok)

lemma ReplyToTicket_APIError:
  "new_request_ok net (BaseURL c) \<Longrightarrow> Response.Status r = ''Error'' \<Longrightarrow>
   exchange net (hist @ [wire POST c (ReplyToTicket_Request ticketID body staffID)]) = Envelope r \<Longrightarrow>
   ReplyToTicket net c ticketID body staffID hist = (Some (APIError (Message r)), hist @ [wire POST c (ReplyToTicket_Request ticketID body staffID)])"
  by (simp add: ReplyToTicket_def doRequest_Error)

lemma ReplyToTicket_ok:
  "new_request_ok net (BaseURL c) \<Longrightarrow> Response.Status resp \<noteq> ''Error'' \<Longrightarrow>
   exchange net (hist @ [wire POST c (ReplyToTicket_Request ticketID body staffID)]) = Envelope resp \<Longrightarrow>
   ReplyToTicket net c ticketID body staffID hist = (None, hist @ [wire POST c (ReplyToTicket_Request ticketID body staffID)])"
  by (simp add: ReplyToTicket_def doRequest_ok)

lemma CloseTicket_APIError:
  "new_request_ok net (BaseURL c) \<Longrightarrow> Response.Status r = ''Error'' \<Longrightarrow>
   exchange net (hist @ [wire POST c (CloseTicket_Request params)]) = Envelope r \<Longrightarrow>
   CloseTicket net c params hist = (Some (APIError (Message r)), hist @ [wire POST c (CloseTicket_Request params)])"
  by (simp add: CloseTicket_def doRequest_Error)

lemma CloseTicket_ok:
  "new_request_ok net (BaseURL c) \<Longrightarrow> Response.Status resp \<noteq> ''Error'' \<Longrightarrow>
   exchange net (hist @ [wire POST c (CloseTicket_Request params)]) = Envelope resp \<Longrightarrow>
   CloseTicket net c params hist = (None, hist @ [wire POST c (CloseTicket_Request params)])"
  by (simp add: CloseTicket_def doRequest_ok)

lemma GetUserByID_APIError:
  "new_request_ok net (BaseURL c) \<Longrightarrow> Response.Status r = ''Error'' \<Longrightarrow>
   exchange net (hist @ [wire POST c (GetUserByID_Request ident)]) = Envelope r \<Longrightarrow>
   GetUserByID net c ident hist = (Inl (APIError (Message r)), hist @ [wire POST c (GetUserByID_Request ident)])"
  by (simp add: GetUserByID_def doRequest_Error)

lemma GetUserByID_ok:
  "new_request_ok net (BaseURL c) \<Longrightarrow> Response.Status resp \<noteq> ''Error'' \<Longrightarrow>
   exchange net (hist @ [wire POST c (GetUserByID_Request ident)]) = Envelope resp \<Longrightarrow>
   GetUserByID net c ident hist = (parse_as ''user data'' decode_UserData zero_UserData (Data resp), hist @ [wire POST c (GetUserByID_Request ident)])"
  by (simp add: GetUserByID_def doRequest_ok)

lemma GetUserByEmail_APIError:
  "new_request_ok net (BaseURL c) \<Longrightarrow> Response.Status r = ''Error'' \<Longrightarrow>
   exchange net (hist @ [wire POST c (GetUserByEmail_Request email)]) = Envelope r \<Longrightarrow>
   GetUserByEmail net c email hist = (Inl (APIError (Message r)), hist @ [wire POST c (GetUserByEmail_Request email)])"
  by (simp add: GetUserByEmail_def doRequest_Error)

lemma GetUserByEmail_ok:
  "new_request_ok net (BaseURL c) \<Longrightarrow> Response.Status resp \<noteq> ''Error'' \<Longrightarrow>
   exchange net (hist @ [wire POST c (GetUserByEmail_Request email)]) = Envelope resp \<Longrightarrow>
   GetUserByEmail net c email hist = (parse_as ''user data'' decode_UserData zero_UserData (Data resp), hist @ [wire POST c (GetUserByEmail_Request email)])"
  by (simp add: GetUserByEmail_def doRequest_ok)

lemma CreateUser_APIError:
  "new_request_ok net (BaseURL c) \<Longrightarrow> Response.Status r = ''Error'' \<Longrightarrow>
   exchange net (hist @ [wire POST c (CreateUser_Request params)]) = Envelope r \<Longrightarrow>
   CreateUser net c params hist = (Inl (APIError (Message r)), hist @ [wire POST c (CreateUser_Request params)])"
  by (simp add: CreateUser_def doRequest_Error)

lemma CreateUser_ok:
  "new_request_ok net (BaseURL c) \<Longrightarrow> Response.Status resp \<noteq> ''Error'' \<Longrightarrow>
   exchange net (hist @ [wire POST c (CreateUser_Request params)]) = Envelope resp \<Longrightarrow>
   CreateUser net c params hist = (parse_as ''user ID'' decode_int 0 (Data resp), hist @ [wire POST c (CreateUser_Request params)])"
  by (simp add: CreateUser_def doRequest_ok)

lemma GetDepartments_APIError:
  "new_request_ok net (BaseURL c) \<Longrightarrow> Response.Status r = ''Error'' \<Longrightarrow>
   exchange net (hist @ [wire POST c GetDepartments_Request]) = Envelope r \<Longrightarrow>
   GetDepartments net c hist = (Inl (APIError (Message r)), hist @ [wire POST c GetDepartments_Request])"
  by (simp add: GetDepartments_def doRequest_Error)

lemma GetDepartments_ok:
  "new_request_ok net (BaseURL c) \<Longrightarrow> Response.Status resp \<noteq> ''Error'' \<Longrightarrow>
   exchange net (hist @ [wire POST c GetDepartments_Request]) = Envelope resp \<Longrightarrow>
   GetDepartments net c hist = (parse_as ''department data'' decode_DepartmentData zero_DepartmentData (Data resp), hist @ [wire POST c GetDepartments_Request])"
  by (simp add: GetDepartments_def doRequest_ok)

lemma GetTopics_APIError:
  "new_request_ok net (BaseURL c) \<Longrightarrow> Response.Status r = ''Error'' \<Longrightarrow>
   exchange net (hist @ [wire POST c GetTopics_Request]) = Envelope r \<Longrightarrow>
   GetTopics net c hist = (Inl (APIError (Message r)), hist @ [wire POST c GetTopics_Request])"
  by (simp add: GetTopics_def doRequest_Error)

lemma GetTopics_ok:
  "new_request_ok net (BaseURL c) \<Longrightarrow> Response.Status resp \<noteq> ''Error'' \<Longrightarrow>
   exchange net (hist @ [wire POST c GetTopics_Request]) = Envelope resp \<Longrightarrow>
   GetTopics net c hist = (parse_as ''topic data'' decode_TopicData zero_TopicData (Data resp), hist @ [wire POST c GetTopics_Request])"
  by (simp add: GetTopics_def doRequest_ok)

lemma GetSLAs_APIError:
  "new_request_ok net (BaseURL c) \<Longrightarrow> Response.Status r = ''Error'' \<Longrightarrow>
   exchange net (hist @ [wire POST c GetSLAs_Request]) = Envelope r \<Longrightarrow>
   GetSLAs net c hist = (Inl (APIError (Message r)), hist @ [wire POST c GetSLAs_Request])"
  by (simp add: GetSLAs_def doRequest_Error)

lemma GetSLAs_ok:
  "new_request_ok net (BaseURL c) \<Longrightarrow> Response.Status resp \<noteq> ''Error'' \<Longrightarrow>
   exchange net (hist @ [wire POST c GetSLAs_Request]) = Envelope resp \<Longrightarrow>
   GetSLAs net c hist = (parse_as ''SLA data'' decode_SLAData zero_SLAData (Data resp), hist @ [wire POST c GetSLAs_Request])"
  by (simp add: GetSLAs_def doRequest_ok)

section \<open>The error contract\<close>

lemma SearchTicketsByEmail_APIError_first:
  "new_request_ok net (BaseURL c) \<Longrightarrow> Response.Status r = ''Error'' \<Longrightarrow>
   exchange net (hist @ [wire POST c (GetUserByEmail_Request email)]) = Envelope r \<Longrightarrow>
   SearchTicketsByEmail net c email hist =
     ((None, None, Some (APIError (Message r))), hist @ [wire POST c (GetUserByEmail_Request email)])"
  by (simp add: SearchTicketsByEmail_def GetUserByEmail_APIError)

lemma SearchTicketsByEmail_APIError_second:
  "new_request_ok net (BaseURL c) \<Longrightarrow> Response.Status r = ''Error'' \<Longrightarrow>
   GetUserByEmail net c email hist = (Inr userData, hist1) \<Longrightarrow>
   UserData.Users userData = user # others \<Longrightarrow>
   exchange net (hist1 @ [wire POST c (GetTicketsByStatus_Request 0)]) = Envelope r \<Longrightarrow>
   SearchTicketsByEmail net c email hist =
     ((None, Some user, Some (APIError (Message r))),
      hist1 @ [wire POST c (GetTicketsByStatus_Request 0)])"
  by (simp add: SearchTicketsByEmail_def GetTicketsByStatus_APIError)

text \<open>
  C3. Let \<^verbatim>\<open>http.NewRequest\<close> accept the base URL and let \<open>r\<close> be any envelope
  whose status is \<open>Error\<close>; its data member is arbitrary. Whenever \<open>r\<close> is the
  reply to the request an operation sends, the operation returns the error
  \<open>APIError (Message r)\<close> and has sent that one request and no other: nothing
  is retried. This holds for \<^verbatim>\<open>doRequest\<close> and \<^verbatim>\<open>doGetRequest\<close> with every
  envelope, for each of the twelve single-request operations, and for both
  calls of \<^verbatim>\<open>SearchTicketsByEmail\<close> (the second keeps the user found by the
  first).
\<close>

theorem Error_status_gives_APIError:
  assumes "new_request_ok net (BaseURL c)" and "Response.Status r = ''Error''"
  shows
   "(exchange net (hist @ [wire POST c req]) = Envelope r \<longrightarrow>
      doRequest net c req hist = (Inl (APIError (Message r)), hist @ [wire POST c req])) \<and>
    (exchange net (hist @ [wire GET c req]) = Envelope r \<longrightarrow>
      doGetRequest net c req hist = (Inl (APIError (Message r)), hist @ [wire GET c req])) \<and>
    (exchange net (hist @ [wire GET c (GetTicket_Request ident)]) = Envelope r \<longrightarrow>
      GetTicket net c ident hist = (Inl (APIError (Message r)), hist @ [wire GET c (GetTicket_Request ident)])) \<and>
    (exchange net (hist @ [wire POST c (GetTicketsByStatus_Request status)]) = Envelope r \<longrightarrow>
      GetTicketsByStatus net c status hist = (Inl (APIError (Message r)), hist @ [wire POST c (GetTicketsByStatus_Request status)])) \<and>
    (exchange net (hist @ [wire POST c (GetTicketsByDateRange_Request startDate endDate)]) = Envelope r \<longrightarrow>
      GetTicketsByDateRange net c startDate endDate hist = (Inl (APIError (Message r)), hist @ [wire POST c (GetTicketsByDateRange_Request startDate endDate)])) \<and>
    (exchange net (hist @ [wire POST c (CreateTicket_Request tparams)]) = Envelope r \<longrightarrow>
      CreateTicket net c tparams hist = (Inl (APIError (Message r)), hist @ [wire POST c (CreateTicket_Request tparams)])) \<and>
    (exchange net (hist @ [wire POST c (ReplyToTicket_Request ticketID body staffID)]) = Envelope r \<longrightarrow>
      ReplyToTicket net c ticketID body staffID hist = (Some (APIError (Message r)), hist @ [wire POST c (ReplyToTicket_Request ticketID body staffID)])) \<and>
    (exchange net (hist @ [wire POST c (CloseTicket_Request cparams)]) = Envelope r \<longrightarrow>
      CloseTicket net c cparams hist = (Some (APIError (Message r)), hist @ [wire POST c (CloseTicket_Request cparams)])) \<and>
    (exchange net (hist @ [wire POST c (GetUserByID_Request uid)]) = Envelope r \<longrightarrow>
      GetUserByID net c uid hist = (Inl (APIError (Message r)), hist @ [wire POST c (GetUserByID_Request uid)])) \<and>
    (exchange net (hist @ [wire POST c (GetUserByEmail_Request email)]) = Envelope r \<longrightarrow>
      GetUserByEmail net c email hist = (Inl (APIError (Message r)), hist @ [wire POST c (GetUserByEmail_Request email)])) \<and>
    (exchange net (hist @ [wire POST c (CreateUser_Request uparams)]) = Envelope r \<longrightarrow>
      CreateUser net c uparams hist = (Inl (APIError (Message r)), hist @ [wire POST c (CreateUser_Request uparams)])) \<and>
    (exchange net (hist @ [wire POST c GetDepartments_Request]) = Envelope r \<longrightarrow>
      GetDepartments net c hist = (Inl (APIError (Message r)), hist @ [wire POST c GetDepartments_Request])) \<and>
    (exchange net (hist @ [wire POST c GetTopics_Request]) = Envelope r \<longrightarrow>
      GetTopics net c hist = (Inl (APIError (Message r)), hist @ [wire POST c GetTopics_Request])) \<and>
    (exchange net (hist @ [wire POST c GetSLAs_Request]) = Envelope r \<longrightarrow>
      GetSLAs net c hist = (Inl (APIError (Message r)), hist @ [wire POST c GetSLAs_Request])) \<and>
    (exchange net (hist @ [wire POST c (GetUserByEmail_Request email)]) = Envelope r \<longrightarrow>
      SearchTicketsByEmail net c email hist =
        ((None, None, Some (APIError (Message r))), hist @ [wire POST c (GetUserByEmail_Request email)])) \<and>
    (GetUserByEmail net c email hist = (Inr userData, hist1) \<and>
     UserData.Users userData = user # others \<and>
     exchange net (hist1 @ [wire POST c (GetTicketsByStatus_Request 0)]) = Envelope r \<longrightarrow>
      SearchTicketsByEmail net c email hist =
        ((None, Some user, Some (APIError (Message r))),
         hist1 @ [wire POST c (GetTicketsByStatus_Request 0)]))"
  using assms
  by (intro conjI impI)
     (simp_all add: doRequest_Error doGetRequest_Error GetTicket_APIError GetTicketsByStatus_APIError GetTicketsByDateRange_APIError CreateTicket_APIError ReplyToTicket_APIError CloseTicket_APIError GetUserByID_APIError GetUserByEmail_APIError CreateUser_APIError GetDepartments_APIError GetTopics_APIError GetSLAs_APIError
        SearchTicketsByEmail_APIError_first SearchTicketsByEmail_APIError_second)

theorem Error_status_gives_APIError_witness:
  "GetTicket
     \<lparr>new_request_ok = (\<lambda>_. True),
      exchange = (\<lambda>_. Envelope \<lparr>Response.Status = ''Error'', Message = ''Incorrect API Key'',
                                 Time = 0, Data = Some (JObject [(''total'', JInt 1)])\<rparr>)\<rparr>
     \<lparr>BaseURL = ''https://h/'', APIKey = ''k''\<rparr> ''7'' []
   = (Inl (APIError ''Incorrect API Key''),
      [wire GET \<lparr>BaseURL = ''https://h/'', APIKey = ''k''\<rparr> (GetTicket_Request ''7'')])"
proof -
  let ?r = "\<lparr>Response.Status = ''Error'', Message = ''Incorrect API Key'', Time = 0,
             Data = Some (JObject [(''total'', JInt 1)])\<rparr>"
  let ?net = "\<lparr>new_request_ok = (\<lambda>_. True), exchange = (\<lambda>_. Envelope ?r)\<rparr>"
  let ?c = "\<lparr>BaseURL = ''https://h/'', APIKey = ''k''\<rparr>"
  have a: "new_request_ok ?net (BaseURL ?c)"
    by simp
  have s: "Response.Status ?r = ''Error''"
    by simp
  have b: "exchange ?net ([] @ [wire GET ?c (GetTicket_Request ''7'')]) = Envelope ?r"
    by simp
  from Error_status_gives_APIError [OF a s, of "[]" _ "''7''"] b
  have "GetTicket ?net ?c ''7'' [] = (Inl (APIError (Message ?r)), [] @ [wire GET ?c (GetTicket_Request ''7'')])"
    by blast
  then show ?thesis
    by simp
qed

section \<open>Searching by email\<close>

lemma GetUserByEmail_Inr_sent:
  assumes "GetUserByEmail net c email hist = (Inr userData, hist1)"
  shows "hist1 = hist @ [wire POST c (GetUserByEmail_Request email)]"
proof (cases "new_request_ok net (BaseURL c)")
  case True
  have "snd (GetUserByEmail net c email hist) = hist @ [wire POST c (GetUserByEmail_Request email)]"
    by (simp add: snd_GetUserByEmail snd_doRequest True)
  with assms show ?thesis
    by simp
next
  case False
  with assms show ?thesis
    by (simp add: GetUserByEmail_def doRequest_refused)
qed

text \<open>
  C4. When the user lookup succeeds and yields no user,
  \<^verbatim>\<open>SearchTicketsByEmail\<close> returns the ticket data \<open>{total: 0, tickets: []}\<close>, no
  user and no error. The history after the call is the history before it
  followed by the one lookup request (query \<open>user\<close>): the listing of all
  tickets is not requested.
\<close>

theorem SearchTicketsByEmail_no_user:
  assumes "GetUserByEmail net c email hist = (Inr userData, hist1)"
    and "UserData.Users userData = []"
  shows "SearchTicketsByEmail net c email hist =
           ((Some \<lparr>TicketData.Total = 0, TicketData.Tickets = []\<rparr>, None, None),
            hist @ [wire POST c (GetUserByEmail_Request email)]) \<and>
         Query (http_request.Body (wire POST c (GetUserByEmail_Request email))) = ''user''"
proof -
  have "hist1 = hist @ [wire POST c (GetUserByEmail_Request email)]"
    using assms(1) by (rule GetUserByEmail_Inr_sent)
  with assms show ?thesis
    by (simp add: SearchTicketsByEmail_def wire_def GetUserByEmail_Request_def)
qed

lemma foldName_users [simp]: "foldName ''users'' = ''users''"
  by code_simp

theorem SearchTicketsByEmail_no_user_witness:
  "SearchTicketsByEmail
     \<lparr>new_request_ok = (\<lambda>_. True),
      exchange = (\<lambda>_. Envelope \<lparr>Response.Status = ''Success'', Message = [], Time = 0,
                     Data = Some (JObject [(''total'', JInt 0), (''users'', JArray [])])\<rparr>)\<rparr>
     \<lparr>BaseURL = ''https://h/'', APIKey = ''k''\<rparr> ''a@b.c'' []
   = ((Some \<lparr>TicketData.Total = 0, TicketData.Tickets = []\<rparr>, None, None),
      [wire POST \<lparr>BaseURL = ''https://h/'', APIKey = ''k''\<rparr> (GetUserByEmail_Request ''a@b.c'')])"
proof -
  let ?resp = "\<lparr>Response.Status = ''Success'', Message = [], Time = 0,
                Data = Some (JObject [(''total'', JInt 0), (''users'', JArray [])])\<rparr>"
  let ?net = "\<lparr>new_request_ok = (\<lambda>_. True), exchange = (\<lambda>_. Envelope ?resp)\<rparr>"
  let ?c = "\<lparr>BaseURL = ''https://h/'', APIKey = ''k''\<rparr>"
  have dec: "parse_as ''user data'' decode_UserData zero_UserData
        (Some (JObject [(''total'', JInt 0), (''users'', JArray [])]))
      = Inr \<lparr>UserData.Total = 0, UserData.Users = []\<rparr>"
    by code_simp
  have look: "GetUserByEmail ?net ?c ''a@b.c'' []
      = (Inr \<lparr>UserData.Total = 0, UserData.Users = []\<rparr>,
         [] @ [wire POST ?c (GetUserByEmail_Request ''a@b.c'')])"
    by (subst GetUserByEmail_ok [where resp = ?resp]) (simp_all add: dec)
  have none: "UserData.Users \<lparr>UserData.Total = 0, UserData.Users = []\<rparr> = []"
    by simp
  from SearchTicketsByEmail_no_user [OF look none] show ?thesis
    by simp
qed

text \<open>
  C10. When the user lookup yields at least one user and the listing of all
  tickets succeeds, \<^verbatim>\<open>SearchTicketsByEmail\<close> returns the first user of the lookup
  and exactly the groups of the listing that hold a ticket of that user: each
  such group whole, in the order of the listing. The returned total is the
  number of returned groups; the total reported by the server is not used.
\<close>

theorem SearchTicketsByEmail_filters_by_user:
  assumes "GetUserByEmail net c email hist = (Inr userData, hist1)"
    and "UserData.Users userData = user # others"
    and "GetTicketsByStatus net c 0 hist1 = (Inr allTickets, hist2)"
  shows "SearchTicketsByEmail net c email hist =
           ((Some \<lparr>TicketData.Total =
                      int (length (filter (\<lambda>g. \<exists>t\<in>set g. Ticket.UserID t = User.UserID user)
                                     (TicketData.Tickets allTickets))),
                    TicketData.Tickets =
                      filter (\<lambda>g. \<exists>t\<in>set g. Ticket.UserID t = User.UserID user)
                        (TicketData.Tickets allTickets)\<rparr>,
             Some user, None),
            hist2)"
  using assms
  by (simp add: SearchTicketsByEmail_def filter_groups_eq group_has_user_iff Let_def)

lemma foldName_user_id [simp]: "foldName ''user_id'' = ''user_id''"
  by code_simp

theorem SearchTicketsByEmail_filters_by_user_witness:
  "fst (SearchTicketsByEmail
     \<lparr>new_request_ok = (\<lambda>_. True),
      exchange = (\<lambda>h. if length h = 1
        then Envelope \<lparr>Response.Status = ''Success'', Message = [], Time = 0,
               Data = Some (JObject [(''total'', JInt 1),
                        (''users'', JArray [JObject [(''user_id'', JInt 3)]])])\<rparr>
        else Envelope \<lparr>Response.Status = ''Success'', Message = [], Time = 0,
               Data = Some (JObject [(''total'', JInt 5),
                        (''tickets'', JArray [
                           JArray [JObject [(''user_id'', JInt 4)], JObject [(''user_id'', JInt 3)]],
                           JArray [JObject [(''user_id'', JInt 4)]],
                           JArray [JObject [(''user_id'', JInt 3)]]])])\<rparr>)\<rparr>
     \<lparr>BaseURL = ''https://h/'', APIKey = ''k''\<rparr> ''a@b.c'' [])
   = (Some \<lparr>TicketData.Total = 2,
             TicketData.Tickets =
               [[zero_Ticket\<lparr>Ticket.UserID := 4\<rparr>, zero_Ticket\<lparr>Ticket.UserID := 3\<rparr>],
                [zero_Ticket\<lparr>Ticket.UserID := 3\<rparr>]]\<rparr>,
      Some (zero_User\<lparr>User.UserID := 3\<rparr>), None)"
proof -
  let ?users = "Some (JObject [(''total'', JInt 1),
                        (''users'', JArray [JObject [(''user_id'', JInt 3)]])])"
  let ?tickets = "Some (JObject [(''total'', JInt 5),
                        (''tickets'', JArray [
                           JArray [JObject [(''user_id'', JInt 4)], JObject [(''user_id'', JInt 3)]],
                           JArray [JObject [(''user_id'', JInt 4)]],
                           JArray [JObject [(''user_id'', JInt 3)]]])])"
  let ?r1 = "\<lparr>Response.Status = ''Success'', Message = [], Time = 0, Data = ?users\<rparr>"
  let ?r2 = "\<lparr>Response.Status = ''Success'', Message = [], Time = 0, Data = ?tickets\<rparr>"
  let ?net = "\<lparr>new_request_ok = (\<lambda>_. True),
               exchange = (\<lambda>h. if length h = 1 then Envelope ?r1 else Envelope ?r2)\<rparr>"
  let ?c = "\<lparr>BaseURL = ''https://h/'', APIKey = ''k''\<rparr>"
  let ?ud = "\<lparr>UserData.Total = 1, UserData.Users = [zero_User\<lparr>User.UserID := 3\<rparr>]\<rparr>"
  let ?all = "\<lparr>TicketData.Total = 5,
               TicketData.Tickets =
                 [[zero_Ticket\<lparr>Ticket.UserID := 4\<rparr>, zero_Ticket\<lparr>Ticket.UserID := 3\<rparr>],
                  [zero_Ticket\<lparr>Ticket.UserID := 4\<rparr>],
                  [zero_Ticket\<lparr>Ticket.UserID := 3\<rparr>]]\<rparr>"
  let ?w1 = "wire POST ?c (GetUserByEmail_Request ''a@b.c'')"
  let ?w2 = "wire POST ?c (GetTicketsByStatus_Request 0)"
  have dec1: "parse_as ''user data'' decode_UserData zero_UserData ?users = Inr ?ud"
    by code_simp
  have dec2: "parse_as ''ticket data'' decode_TicketData zero_TicketData ?tickets = Inr ?all"
    by code_simp
  have look: "GetUserByEmail ?net ?c ''a@b.c'' [] = (Inr ?ud, [] @ [?w1])"
    by (subst GetUserByEmail_ok [where resp = ?r1]) (simp_all add: dec1)
  have first: "UserData.Users ?ud = zero_User\<lparr>User.UserID := 3\<rparr> # []"
    by simp
  have list: "GetTicketsByStatus ?net ?c 0 ([] @ [?w1]) = (Inr ?all, ([] @ [?w1]) @ [?w2])"
    by (subst GetTicketsByStatus_ok [where resp = ?r2]) (simp_all add: dec2)
  from SearchTicketsByEmail_filters_by_user [OF look first list] show ?thesis
    by (simp add: zero_Ticket_def zero_User_def)
qed

section \<open>The listings decode one shape only\<close>

text \<open>
  C8. Let the request of a listing go out and an envelope whose status is not
  \<open>Error\<close> come back. If its payload does not decode as \<^verbatim>\<open>TicketData\<close> (the
  nested-array shape) with error \<open>e\<close>, then \<^verbatim>\<open>GetTicketsByStatus\<close> and
  \<^verbatim>\<open>GetTicketsByDateRange\<close> return the decode error
  \<open>ParseFailed ''ticket data'' e\<close> at once, after that single request. Nothing is
  assumed about the flat-array or single-object decoding of the payload: those
  are not tried.
\<close>

theorem listings_decode_nested_shape_only:
  assumes "new_request_ok net (BaseURL c)"
    and "Response.Status resp \<noteq> ''Error''"
    and "unmarshal decode_TicketData zero_TicketData (Data resp) = Inl e"
  shows "(exchange net (hist @ [wire POST c (GetTicketsByStatus_Request status)]) = Envelope resp
            \<longrightarrow> GetTicketsByStatus net c status hist
                  = (Inl (ParseFailed ''ticket data'' e),
                     hist @ [wire POST c (GetTicketsByStatus_Request status)])) \<and>
         (exchange net (hist @ [wire POST c (GetTicketsByDateRange_Request startDate endDate)]) = Envelope resp
            \<longrightarrow> GetTicketsByDateRange net c startDate endDate hist
                  = (Inl (ParseFailed ''ticket data'' e),
                     hist @ [wire POST c (GetTicketsByDateRange_Request startDate endDate)]))"
  using assms
  by (simp add: GetTicketsByStatus_ok GetTicketsByDateRange_ok parse_as_def)

theorem listings_decode_nested_shape_only_witness:
  "fst (GetTicketsByStatus
     \<lparr>new_request_ok = (\<lambda>_. True),
      exchange = (\<lambda>_. Envelope \<lparr>Response.Status = ''Success'', Message = [], Time = 0,
                     Data = Some (JObject [(''total'', JInt 1),
                              (''tickets'', JArray [JObject [(''user_id'', JInt 3)]])])\<rparr>)\<rparr>
     \<lparr>BaseURL = ''https://h/'', APIKey = ''k''\<rparr> 0 [])
   = Inl (ParseFailed ''ticket data'' UnmarshalTypeError) \<and>
   GetTicket_data (Some (JObject [(''total'', JInt 1),
                              (''tickets'', JArray [JObject [(''user_id'', JInt 3)]])]))
   = Inr \<lparr>TicketData.Total = 1, TicketData.Tickets = [[zero_Ticket\<lparr>Ticket.UserID := 3\<rparr>]]\<rparr>"
proof -
  let ?flat = "Some (JObject [(''total'', JInt 1),
                              (''tickets'', JArray [JObject [(''user_id'', JInt 3)]])])"
  let ?resp = "\<lparr>Response.Status = ''Success'', Message = [], Time = 0, Data = ?flat\<rparr>"
  let ?net = "\<lparr>new_request_ok = (\<lambda>_. True), exchange = (\<lambda>_. Envelope ?resp)\<rparr>"
  let ?c = "\<lparr>BaseURL = ''https://h/'', APIKey = ''k''\<rparr>"
  have a: "new_request_ok ?net (BaseURL ?c)"
    by simp
  have s: "Response.Status ?resp \<noteq> ''Error''"
    by simp
  have "unmarshal decode_TicketData zero_TicketData ?flat = Inl UnmarshalTypeError"
    by code_simp
  then have d: "unmarshal decode_TicketData zero_TicketData (Data ?resp) = Inl UnmarshalTypeError"
    by simp
  have b: "exchange ?net ([] @ [wire POST ?c (GetTicketsByStatus_Request 0)]) = Envelope ?resp"
    by simp
  have other: "GetTicket_data ?flat
      = Inr \<lparr>TicketData.Total = 1, TicketData.Tickets = [[zero_Ticket\<lparr>Ticket.UserID := 3\<rparr>]]\<rparr>"
    by code_simp
  from listings_decode_nested_shape_only [OF a s d, of "[]" 0] b
  have "GetTicketsByStatus ?net ?c 0 []
      = (Inl (ParseFailed ''ticket data'' UnmarshalTypeError),
         [] @ [wire POST ?c (GetTicketsByStatus_Request 0)])"
    by blast
  with other show ?thesis
    by simp
qed

section \<open>Method and headers of every request\<close>

lemma added_append [simp]: "added hist (hist @ xs) = xs"
  by (simp add: added_def)

lemma snd_SearchTicketsByEmail:
  assumes ok: "new_request_ok net (BaseURL c)"
  shows "snd (SearchTicketsByEmail net c email hist)
           = hist @ [wire POST c (GetUserByEmail_Request email)] \<or>
         snd (SearchTicketsByEmail net c email hist)
           = hist @ [wire POST c (GetUserByEmail_Request email),
                     wire POST c (GetTicketsByStatus_Request 0)]"
proof (cases "GetUserByEmail net c email hist")
  case (Pair res hist1)
  have "snd (GetUserByEmail net c email hist) = hist @ [wire POST c (GetUserByEmail_Request email)]"
    by (simp add: snd_GetUserByEmail snd_doRequest ok)
  with Pair have h1: "hist1 = hist @ [wire POST c (GetUserByEmail_Request email)]"
    by simp
  show ?thesis
  proof (cases res)
    case (Inl e)
    with Pair h1 show ?thesis
      by (simp add: SearchTicketsByEmail_def)
  next
    case (Inr userData)
    show ?thesis
    proof (cases "UserData.Users userData")
      case Nil
      with Pair Inr h1 show ?thesis
        by (simp add: SearchTicketsByEmail_def)
    next
      case (Cons user others)
      obtain res2 hist2 where P2: "GetTicketsByStatus net c 0 hist1 = (res2, hist2)"
        by (cases "GetTicketsByStatus net c 0 hist1")
      have "snd (GetTicketsByStatus net c 0 hist1) = hist1 @ [wire POST c (GetTicketsByStatus_Request 0)]"
        by (simp add: snd_GetTicketsByStatus snd_doRequest ok)
      with P2 have h2: "hist2 = hist1 @ [wire POST c (GetTicketsByStatus_Request 0)]"
        by simp
      from Pair Inr Cons P2 h1 h2 show ?thesis
        by (cases res2) (simp_all add: SearchTicketsByEmail_def Let_def)
    qed
  qed
qed

text \<open>
  C9. Let \<^verbatim>\<open>http.NewRequest\<close> accept the base URL. \<^verbatim>\<open>GetTicket\<close> sends exactly one
  request, with method GET; each of the other eleven single-request operations
  sends exactly one request, with method POST; \<^verbatim>\<open>SearchTicketsByEmail\<close> sends one
  or two requests, both with method POST. Every request goes to the base URL,
  carries the envelope of the operation as its body, the client's key in the
  header \<open>apikey\<close> and \<open>application/json\<close> in the header \<open>Content-Type\<close>.
\<close>

theorem method_and_headers_by_operation:
  assumes "new_request_ok net (BaseURL c)"
  shows
   "added hist (snd (GetTicket net c ident hist)) = [wire GET c (GetTicket_Request ident)] \<and>
    added hist (snd (GetTicketsByStatus net c status hist)) = [wire POST c (GetTicketsByStatus_Request status)] \<and>
    added hist (snd (GetTicketsByDateRange net c startDate endDate hist)) = [wire POST c (GetTicketsByDateRange_Request startDate endDate)] \<and>
    added hist (snd (CreateTicket net c tparams hist)) = [wire POST c (CreateTicket_Request tparams)] \<and>
    added hist (snd (ReplyToTicket net c ticketID body staffID hist)) = [wire POST c (ReplyToTicket_Request ticketID body staffID)] \<and>
    added hist (snd (CloseTicket net c cparams hist)) = [wire POST c (CloseTicket_Request cparams)] \<and>
    added hist (snd (GetUserByID net c uid hist)) = [wire POST c (GetUserByID_Request uid)] \<and>
    added hist (snd (GetUserByEmail net c email hist)) = [wire POST c (GetUserByEmail_Request email)] \<and>
    added hist (snd (CreateUser net c uparams hist)) = [wire POST c (CreateUser_Request uparams)] \<and>
    added hist (snd (GetDepartments net c hist)) = [wire POST c GetDepartments_Request] \<and>
    added hist (snd (GetTopics net c hist)) = [wire POST c GetTopics_Request] \<and>
    added hist (snd (GetSLAs net c hist)) = [wire POST c GetSLAs_Request] \<and>
    (added hist (snd (SearchTicketsByEmail net c email hist))
       = [wire POST c (GetUserByEmail_Request email)] \<or>
     added hist (snd (SearchTicketsByEmail net c email hist))
       = [wire POST c (GetUserByEmail_Request email), wire POST c (GetTicketsByStatus_Request 0)]) \<and>
    Method (wire m c req) = m \<and>
    URL (wire m c req) = BaseURL c \<and>
    Header (wire m c req) ''apikey'' = Some (APIKey c) \<and>
    Header (wire m c req) ''Content-Type'' = Some ''application/json'' \<and>
    http_request.Body (wire m c req) = req"
  using assms snd_SearchTicketsByEmail [OF assms, of email hist]
  by (intro conjI)
     (simp_all add: snd_GetTicket snd_GetTicketsByStatus snd_GetTicketsByDateRange snd_CreateTicket snd_ReplyToTicket snd_CloseTicket snd_GetUserByID snd_GetUserByEmail snd_CreateUser snd_GetDepartments snd_GetTopics snd_GetSLAs snd_doRequest snd_doGetRequest wire_def, auto)

theorem method_and_headers_by_operation_witness:
  "added [] (snd (GetTicket \<lparr>new_request_ok = (\<lambda>_. True), exchange = (\<lambda>_. DoFailed)\<rparr>
     \<lparr>BaseURL = ''https://h/'', APIKey = ''k''\<rparr> ''7'' []))
   = [\<lparr>Method = GET, URL = ''https://h/'',
       Header = [''Content-Type'' \<mapsto> ''application/json'', ''apikey'' \<mapsto> ''k''],
       http_request.Body = GetTicket_Request ''7''\<rparr>] \<and>
   added [] (snd (GetTopics \<lparr>new_request_ok = (\<lambda>_. True), exchange = (\<lambda>_. DoFailed)\<rparr>
     \<lparr>BaseURL = ''https://h/'', APIKey = ''k''\<rparr> []))
   = [\<lparr>Method = POST, URL = ''https://h/'',
       Header = [''Content-Type'' \<mapsto> ''application/json'', ''apikey'' \<mapsto> ''k''],
       http_request.Body = GetTopics_Request\<rparr>]"
proof -
  let ?net = "\<lparr>new_request_ok = (\<lambda>_. True), exchange = (\<lambda>_. DoFailed)\<rparr>"
  let ?c = "\<lparr>BaseURL = ''https://h/'', APIKey = ''k''\<rparr>"
  have a: "new_request_ok ?net (BaseURL ?c)"
    by simp
  from method_and_headers_by_operation [OF a, of "[]" "''7''"]
  have "added [] (snd (GetTicket ?net ?c ''7'' [])) = [wire GET ?c (GetTicket_Request ''7'')]"
    and "added [] (snd (GetTopics ?net ?c [])) = [wire POST ?c GetTopics_Request]"
    by blast+
  then show ?thesis
    by (simp add: wire_def)
qed

section \<open>The parameters of \<^verbatim>\<open>CreateTicket\<close>\<close>

lemma CreateTicket_Request_inj:
  assumes "Parameters (CreateTicket_Request p) = Parameters (CreateTicket_Request q)"
  shows "p = q"
proof -
  have at: "Parameters (CreateTicket_Request p) k = Parameters (CreateTicket_Request q) k" for k
    using assms by simp
  have "CreateTicketParams.Title p = CreateTicketParams.Title q"
    using at [of "''title''"] by (simp add: CreateTicket_Request_def)
  moreover have "CreateTicketParams.Subject p = CreateTicketParams.Subject q"
    using at [of "''subject''"] by (simp add: CreateTicket_Request_def)
  moreover have "CreateTicketParams.UserID p = CreateTicketParams.UserID q"
    using at [of "''user_id''"] by (simp add: CreateTicket_Request_def)
  moreover have "CreateTicketParams.PriorityID p = CreateTicketParams.PriorityID q"
    using at [of "''priority_id''"] by (simp add: CreateTicket_Request_def)
  moreover have "CreateTicketParams.StatusID p = CreateTicketParams.StatusID q"
    using at [of "''status_id''"] by (simp add: CreateTicket_Request_def)
  moreover have "CreateTicketParams.DeptID p = CreateTicketParams.DeptID q"
    using at [of "''dept_id''"] by (simp add: CreateTicket_Request_def)
  moreover have "CreateTicketParams.SLAID p = CreateTicketParams.SLAID q"
    using at [of "''sla_id''"] by (simp add: CreateTicket_Request_def)
  moreover have "CreateTicketParams.TopicID p = CreateTicketParams.TopicID q"
    using at [of "''topic_id''"] by (simp add: CreateTicket_Request_def)
  ultimately show ?thesis
    by (intro CreateTicketParams.equality) simp_all
qed

text \<open>
  C7. Let \<^verbatim>\<open>http.NewRequest\<close> accept the base URL. \<^verbatim>\<open>CreateTicket\<close> sends one
  request whose body is the envelope \<open>CreateTicket_Request params\<close>. The keys of
  its \<^verbatim>\<open>parameters\<close> are exactly \<open>title\<close>, \<open>subject\<close>, \<open>user_id\<close>, \<open>priority_id\<close>,
  \<open>status_id\<close>, \<open>dept_id\<close>, \<open>sla_id\<close> and \<open>topic_id\<close>; each key holds the value of
  the field of that name, unchanged; and different inputs give different
  parameters.
\<close>

theorem CreateTicket_parameters_one_to_one:
  assumes "new_request_ok net (BaseURL c)"
  shows
   "added hist (snd (CreateTicket net c params hist)) = [wire POST c (CreateTicket_Request params)] \<and>
    http_request.Body (wire POST c (CreateTicket_Request params)) = CreateTicket_Request params \<and>
    dom (Parameters (CreateTicket_Request params))
      = {''title'', ''subject'', ''user_id'', ''priority_id'', ''status_id'', ''dept_id'',
         ''sla_id'', ''topic_id''} \<and>
    Parameters (CreateTicket_Request params) ''title'' = Some (PString (CreateTicketParams.Title params)) \<and>
    Parameters (CreateTicket_Request params) ''subject'' = Some (PString (CreateTicketParams.Subject params)) \<and>
    Parameters (CreateTicket_Request params) ''user_id'' = Some (PInt (CreateTicketParams.UserID params)) \<and>
    Parameters (CreateTicket_Request params) ''priority_id'' = Some (PInt (CreateTicketParams.PriorityID params)) \<and>
    Parameters (CreateTicket_Request params) ''status_id'' = Some (PInt (CreateTicketParams.StatusID params)) \<and>
    Parameters (CreateTicket_Request params) ''dept_id'' = Some (PInt (CreateTicketParams.DeptID params)) \<and>
    Parameters (CreateTicket_Request params) ''sla_id'' = Some (PInt (CreateTicketParams.SLAID params)) \<and>
    Parameters (CreateTicket_Request params) ''topic_id'' = Some (PInt (CreateTicketParams.TopicID params)) \<and>
    (\<forall>other. Parameters (CreateTicket_Request other) = Parameters (CreateTicket_Request params)
        \<longrightarrow> other = params)"
proof -
  have sent: "added hist (snd (CreateTicket net c params hist)) = [wire POST c (CreateTicket_Request params)]"
    using assms by (simp add: snd_CreateTicket snd_doRequest)
  have body: "http_request.Body (wire POST c (CreateTicket_Request params)) = CreateTicket_Request params"
    by (simp add: wire_def)
  have keys: "dom (Parameters (CreateTicket_Request params))
      = {''title'', ''subject'', ''user_id'', ''priority_id'', ''status_id'', ''dept_id'',
         ''sla_id'', ''topic_id''}"
    by (auto simp: CreateTicket_Request_def)
  have vals:
    "Parameters (CreateTicket_Request params) ''title'' = Some (PString (CreateTicketParams.Title params))"
    "Parameters (CreateTicket_Request params) ''subject'' = Some (PString (CreateTicketParams.Subject params))"
    "Parameters (CreateTicket_Request params) ''user_id'' = Some (PInt (CreateTicketParams.UserID params))"
    "Parameters (CreateTicket_Request params) ''priority_id'' = Some (PInt (CreateTicketParams.PriorityID params))"
    "Parameters (CreateTicket_Request params) ''status_id'' = Some (PInt (CreateTicketParams.StatusID params))"
    "Parameters (CreateTicket_Request params) ''dept_id'' = Some (PInt (CreateTicketParams.DeptID params))"
    "Parameters (CreateTicket_Request params) ''sla_id'' = Some (PInt (CreateTicketParams.SLAID params))"
    "Parameters (CreateTicket_Request params) ''topic_id'' = Some (PInt (CreateTicketParams.TopicID params))"
    by (simp_all add: CreateTicket_Request_def)
  have inj: "\<forall>other. Parameters (CreateTicket_Request other) = Parameters (CreateTicket_Request params)
        \<longrightarrow> other = params"
    using CreateTicket_Request_inj by blast
  from sent body keys vals inj show ?thesis
    by (intro conjI)
qed

theorem CreateTicket_parameters_one_to_one_witness:
  "Parameters (http_request.Body (hd (added [] (snd (CreateTicket
     \<lparr>new_request_ok = (\<lambda>_. True), exchange = (\<lambda>_. DoFailed)\<rparr>
     \<lparr>BaseURL = ''https://h/'', APIKey = ''k''\<rparr>
     \<lparr>CreateTicketParams.Title = ''t'', Subject = ''s'', UserID = 1, PriorityID = 2,
       StatusID = 3, DeptID = 4, SLAID = 5, TopicID = 6\<rparr> []))))) ''sla_id'' = Some (PInt 5)"
proof -
  let ?net = "\<lparr>new_request_ok = (\<lambda>_. True), exchange = (\<lambda>_. DoFailed)\<rparr>"
  let ?c = "\<lparr>BaseURL = ''https://h/'', APIKey = ''k''\<rparr>"
  let ?p = "\<lparr>CreateTicketParams.Title = ''t'', Subject = ''s'', UserID = 1, PriorityID = 2,
       StatusID = 3, DeptID = 4, SLAID = 5, TopicID = 6\<rparr>"
  have a: "new_request_ok ?net (BaseURL ?c)"
    by simp
  from CreateTicket_parameters_one_to_one [OF a, of "[]" ?p]
  have "added [] (snd (CreateTicket ?net ?c ?p [])) = [wire POST ?c (CreateTicket_Request ?p)]"
    and "http_request.Body (wire POST ?c (CreateTicket_Request ?p)) = CreateTicket_Request ?p"
    and "Parameters (CreateTicket_Request ?p) ''sla_id'' = Some (PInt (CreateTicketParams.SLAID ?p))"
    by blast+
  then show ?thesis
    by simp
qed

section \<open>Resolving the configuration\<close>

text \<open>
  C5. In a process that has run \<^verbatim>\<open>init\<close> on the config file \<open>file\<close>:
  \<^verbatim>\<open>GetBaseURL\<close> returns the value of \<^verbatim>\<open>OSTICKET_BASE_URL\<close> when that variable is set
  to a non-empty string, whatever the file holds, and otherwise the value the
  file holds under \<open>base_url\<close>, the empty string when it holds none.
  \<^verbatim>\<open>GetAPIKey\<close> does the same with \<^verbatim>\<open>OSTICKET_API_KEY\<close> and \<open>api_key\<close>. In particular,
  with the variable unset and \<open>https://x\<close> in the file the base URL is
  \<open>https://x\<close>, and with the variable set to \<open>https://y\<close> it is \<open>https://y\<close>.
\<close>

theorem environment_then_file:
  "GetBaseURL env (init file)
     = (if Getenv env EnvBaseURL \<noteq> [] then Getenv env EnvBaseURL else persisted file ''base_url'') \<and>
   GetAPIKey env (init file)
     = (if Getenv env EnvAPIKey \<noteq> [] then Getenv env EnvAPIKey else persisted file ''api_key'') \<and>
   (env EnvBaseURL = None \<and> file ''base_url'' = Some ''https://x''
      \<longrightarrow> GetBaseURL env (init file) = ''https://x'') \<and>
   (env EnvBaseURL = Some ''https://y'' \<longrightarrow> GetBaseURL env (init file) = ''https://y'')"
  by (auto simp: GetBaseURL_def GetAPIKey_def GetString_def init_def persisted_def Getenv_def
      EnvBaseURL_def EnvAPIKey_def Let_def split: option.splits)

theorem environment_then_file_witness:
  "GetBaseURL Map.empty (init [''base_url'' \<mapsto> ''https://x'']) = ''https://x'' \<and>
   GetBaseURL [EnvBaseURL \<mapsto> ''https://y''] (init [''base_url'' \<mapsto> ''https://x'']) = ''https://y''"
proof -
  have "Map.empty EnvBaseURL = None \<and> [''base_url'' \<mapsto> ''https://x''] ''base_url'' = Some ''https://x''"
    by simp
  moreover have "[EnvBaseURL \<mapsto> ''https://y''] EnvBaseURL = Some ''https://y''"
    by simp
  ultimately show ?thesis
    using environment_then_file [of Map.empty "[''base_url'' \<mapsto> ''https://x'']"]
      environment_then_file [of "[EnvBaseURL \<mapsto> ''https://y'']" "[''base_url'' \<mapsto> ''https://x'']"]
    by blast
qed

text \<open>
  C6. \<^verbatim>\<open>IsConfigured\<close> is true exactly when the resolved base URL and the
  resolved API key are both non-empty, in every environment and every state of
  \<^verbatim>\<open>cfg\<close>; so it is false when either is the empty string. After \<^verbatim>\<open>init\<close> that
  is: each of the two has a non-empty variable or a non-empty value in the
  file.
\<close>

theorem IsConfigured_iff_both_non_empty:
  "(IsConfigured env cfg \<longleftrightarrow> GetBaseURL env cfg \<noteq> [] \<and> GetAPIKey env cfg \<noteq> []) \<and>
   (GetBaseURL env cfg = [] \<longrightarrow> \<not> IsConfigured env cfg) \<and>
   (GetAPIKey env cfg = [] \<longrightarrow> \<not> IsConfigured env cfg) \<and>
   (IsConfigured env (init file) \<longleftrightarrow>
      (Getenv env EnvBaseURL \<noteq> [] \<or> persisted file ''base_url'' \<noteq> []) \<and>
      (Getenv env EnvAPIKey \<noteq> [] \<or> persisted file ''api_key'' \<noteq> []))"
  by (auto simp: IsConfigured_def GetBaseURL_def GetAPIKey_def GetString_def init_def persisted_def
      Getenv_def EnvBaseURL_def EnvAPIKey_def Let_def split: option.splits)

theorem IsConfigured_iff_both_non_empty_witness:
  "\<not> IsConfigured Map.empty (init [''base_url'' \<mapsto> ''https://x'']) \<and>
   IsConfigured [EnvAPIKey \<mapsto> ''k''] (init [''base_url'' \<mapsto> ''https://x''])"
proof -
  have "GetAPIKey Map.empty (init [''base_url'' \<mapsto> ''https://x'']) = []"
    by (simp add: GetAPIKey_def GetString_def init_def Getenv_def EnvAPIKey_def)
  moreover have "GetBaseURL [EnvAPIKey \<mapsto> ''k''] (init [''base_url'' \<mapsto> ''https://x'']) \<noteq> []"
    by (simp add: GetBaseURL_def GetString_def init_def Getenv_def EnvBaseURL_def EnvAPIKey_def)
  moreover have "GetAPIKey [EnvAPIKey \<mapsto> ''k''] (init [''base_url'' \<mapsto> ''https://x'']) \<noteq> []"
    by (simp add: GetAPIKey_def GetString_def init_def Getenv_def EnvAPIKey_def)
  ultimately show ?thesis
    using IsConfigured_iff_both_non_empty [of Map.empty "init [''base_url'' \<mapsto> ''https://x'']"]
      IsConfigured_iff_both_non_empty [of "[EnvAPIKey \<mapsto> ''k'']" "init [''base_url'' \<mapsto> ''https://x'']"]
    by blast
qed

end
